theory Spec2Isabelle
  imports Main "HOL-Library.AList" "HOL-Library.Sublist"
begin

section \<open>Python values\<close>

text \<open>
  The values that travel through the bridge are the ones Python's JSON decoder produces and
  its encoder accepts: \<open>None\<close>, booleans, unbounded integers, strings, lists and
  dictionaries with string keys. A dictionary is an association list in insertion order;
  assignment to a key is \<open>AList.update\<close> (replace in place, or append a new key at the
  end), as a Python \<open>dict\<close> does. JSON numbers with a fraction or an exponent (Python
  \<open>float\<close>) are not represented.

  A Python \<open>str\<close> is a \<open>string\<close> holding its UTF-8 bytes (a lone surrogate in its
  three-byte form), so a character is a lead byte with the continuation bytes that follow it.
\<close>

datatype pyval =
    PNone
  | PBool bool
  | PInt int
  | PStr string
  | PList "pyval list"
  | PDict "(string \<times> pyval) list"

type_synonym pydict = "(string \<times> pyval) list"

text \<open>The exceptions that can leave \<open>call_proxypin_tool\<close>. \<open>PyException m\<close> is the
  builtin \<open>Exception(m)\<close>, the only class the module raises itself; the others are raised
  by the interpreter or by \<open>json.loads\<close> (\<open>JSONDecodeError\<close> with its text,
  \<open>RecursionError\<close> on a text nested too deep, \<open>ValueError\<close> on an integer with too
  many digits) and are not caught by the module.\<close>

datatype py_exc =
    PyException string
  | JSONDecodeError string
  | TypeError
  | AttributeError
  | KeyError
  | IndexError
  | RecursionError
  | ValueError string

type_synonym 'a result = "py_exc + 'a"

definition and_then :: "'a result \<Rightarrow> ('a \<Rightarrow> 'b result) \<Rightarrow> 'b result" where
  "and_then r f = (case r of Inl e \<Rightarrow> Inl e | Inr v \<Rightarrow> f v)"

text \<open>Truth value testing, as in \<open>if x:\<close>.\<close>

fun truthy :: "pyval \<Rightarrow> bool" where
  "truthy PNone = False"
| "truthy (PBool b) = b"
| "truthy (PInt i) = (i \<noteq> 0)"
| "truthy (PStr s) = (s \<noteq> [])"
| "truthy (PList xs) = (xs \<noteq> [])"
| "truthy (PDict kvs) = (kvs \<noteq> [])"

subsection \<open>Characters\<close>

definition is_continuation :: "char \<Rightarrow> bool" where
  "is_continuation c = (128 \<le> (of_char c :: nat) \<and> (of_char c :: nat) < 192)"

text \<open>The characters of a string, each as its bytes.\<close>

function utf8_chars :: "string \<Rightarrow> string list" where
  "utf8_chars [] = []"
| "utf8_chars (c # cs) =
     (c # takeWhile is_continuation cs) # utf8_chars (dropWhile is_continuation cs)"
  by pat_completeness auto
termination
  by (relation "measure length") (auto simp: less_Suc_eq_le length_dropWhile_le)

text \<open>The number of characters in a string of bytes.\<close>

definition cp_count :: "string \<Rightarrow> nat" where
  "cp_count s = length (filter (\<lambda>c. \<not> is_continuation c) s)"

text \<open>The code point of a character, and the bytes of a code point.\<close>

definition code_point :: "string \<Rightarrow> nat" where
  "code_point g =
     (case map of_char g of
        [b0] \<Rightarrow> b0
      | [b0, b1] \<Rightarrow> b0 mod 32 * 64 + b1 mod 64
      | [b0, b1, b2] \<Rightarrow> b0 mod 16 * 4096 + b1 mod 64 * 64 + b2 mod 64
      | [b0, b1, b2, b3] \<Rightarrow> b0 mod 8 * 262144 + b1 mod 64 * 4096 + b2 mod 64 * 64 + b3 mod 64
      | _ \<Rightarrow> 0)"

definition utf8_encode :: "nat \<Rightarrow> string" where
  "utf8_encode cp =
     (if cp < 128 then [char_of cp]
      else if cp < 2048 then [char_of (192 + cp div 64), char_of (128 + cp mod 64)]
      else if cp < 65536 then
        [char_of (224 + cp div 4096), char_of (128 + cp div 64 mod 64), char_of (128 + cp mod 64)]
      else
        [char_of (240 + cp div 262144), char_of (128 + cp div 4096 mod 64),
         char_of (128 + cp div 64 mod 64), char_of (128 + cp mod 64)])"

text \<open>\<open>str.isprintable\<close> on one character. Beyond ASCII it is a table of the Unicode
  Character Database, here of version 14.0.0, which CPython 3.11 carries: the ranges of the
  code points from 128 on that are not printable (the categories Cc, Cf, Cs, Co, Cn, Zl, Zp
  and Zs).\<close>

definition not_printable_ranges :: "(nat \<times> nat) list" where
  "not_printable_ranges =
     [(128, 160), (173, 173), (888, 889), (896, 899), (907, 907), (909, 909), (930, 930),
      (1328, 1328), (1367, 1368), (1419, 1420), (1424, 1424), (1480, 1487), (1515, 1518),
      (1525, 1541), (1564, 1564), (1757, 1757), (1806, 1807), (1867, 1868), (1970, 1983),
      (2043, 2044), (2094, 2095), (2111, 2111), (2140, 2141), (2143, 2143), (2155, 2159),
      (2191, 2199), (2274, 2274), (2436, 2436), (2445, 2446), (2449, 2450), (2473, 2473),
      (2481, 2481), (2483, 2485), (2490, 2491), (2501, 2502), (2505, 2506), (2511, 2518),
      (2520, 2523), (2526, 2526), (2532, 2533), (2559, 2560), (2564, 2564), (2571, 2574),
      (2577, 2578), (2601, 2601), (2609, 2609), (2612, 2612), (2615, 2615), (2618, 2619),
      (2621, 2621), (2627, 2630), (2633, 2634), (2638, 2640), (2642, 2648), (2653, 2653),
      (2655, 2661), (2679, 2688), (2692, 2692), (2702, 2702), (2706, 2706), (2729, 2729),
      (2737, 2737), (2740, 2740), (2746, 2747), (2758, 2758), (2762, 2762), (2766, 2767),
      (2769, 2783), (2788, 2789), (2802, 2808), (2816, 2816), (2820, 2820), (2829, 2830),
      (2833, 2834), (2857, 2857), (2865, 2865), (2868, 2868), (2874, 2875), (2885, 2886),
      (2889, 2890), (2894, 2900), (2904, 2907), (2910, 2910), (2916, 2917), (2936, 2945),
      (2948, 2948), (2955, 2957), (2961, 2961), (2966, 2968), (2971, 2971), (2973, 2973),
      (2976, 2978), (2981, 2983), (2987, 2989), (3002, 3005), (3011, 3013), (3017, 3017),
      (3022, 3023), (3025, 3030), (3032, 3045), (3067, 3071), (3085, 3085), (3089, 3089),
      (3113, 3113), (3130, 3131), (3141, 3141), (3145, 3145), (3150, 3156), (3159, 3159),
      (3163, 3164), (3166, 3167), (3172, 3173), (3184, 3190), (3213, 3213), (3217, 3217),
      (3241, 3241), (3252, 3252), (3258, 3259), (3269, 3269), (3273, 3273), (3278, 3284),
      (3287, 3292), (3295, 3295), (3300, 3301), (3312, 3312), (3315, 3327), (3341, 3341),
      (3345, 3345), (3397, 3397), (3401, 3401), (3408, 3411), (3428, 3429), (3456, 3456),
      (3460, 3460), (3479, 3481), (3506, 3506), (3516, 3516), (3518, 3519), (3527, 3529),
      (3531, 3534), (3541, 3541), (3543, 3543), (3552, 3557), (3568, 3569), (3573, 3584),
      (3643, 3646), (3676, 3712), (3715, 3715), (3717, 3717), (3723, 3723), (3748, 3748),
      (3750, 3750), (3774, 3775), (3781, 3781), (3783, 3783), (3790, 3791), (3802, 3803),
      (3808, 3839), (3912, 3912), (3949, 3952), (3992, 3992), (4029, 4029), (4045, 4045),
      (4059, 4095), (4294, 4294), (4296, 4300), (4302, 4303), (4681, 4681), (4686, 4687),
      (4695, 4695), (4697, 4697), (4702, 4703), (4745, 4745), (4750, 4751), (4785, 4785),
      (4790, 4791), (4799, 4799), (4801, 4801), (4806, 4807), (4823, 4823), (4881, 4881),
      (4886, 4887), (4955, 4956), (4989, 4991), (5018, 5023), (5110, 5111), (5118, 5119),
      (5760, 5760), (5789, 5791), (5881, 5887), (5910, 5918), (5943, 5951), (5972, 5983),
      (5997, 5997), (6001, 6001), (6004, 6015), (6110, 6111), (6122, 6127), (6138, 6143),
      (6158, 6158), (6170, 6175), (6265, 6271), (6315, 6319), (6390, 6399), (6431, 6431),
      (6444, 6447), (6460, 6463), (6465, 6467), (6510, 6511), (6517, 6527), (6572, 6575),
      (6602, 6607), (6619, 6621), (6684, 6685), (6751, 6751), (6781, 6782), (6794, 6799),
      (6810, 6815), (6830, 6831), (6863, 6911), (6989, 6991), (7039, 7039), (7156, 7163),
      (7224, 7226), (7242, 7244), (7305, 7311), (7355, 7356), (7368, 7375), (7419, 7423),
      (7958, 7959), (7966, 7967), (8006, 8007), (8014, 8015), (8024, 8024), (8026, 8026),
      (8028, 8028), (8030, 8030), (8062, 8063), (8117, 8117), (8133, 8133), (8148, 8149),
      (8156, 8156), (8176, 8177), (8181, 8181), (8191, 8207), (8232, 8239), (8287, 8303),
      (8306, 8307), (8335, 8335), (8349, 8351), (8385, 8399), (8433, 8447), (8588, 8591),
      (9255, 9279), (9291, 9311), (11124, 11125), (11158, 11158), (11508, 11512),
      (11558, 11558), (11560, 11564), (11566, 11567), (11624, 11630), (11633, 11646),
      (11671, 11679), (11687, 11687), (11695, 11695), (11703, 11703), (11711, 11711),
      (11719, 11719), (11727, 11727), (11735, 11735), (11743, 11743), (11870, 11903),
      (11930, 11930), (12020, 12031), (12246, 12271), (12284, 12288), (12352, 12352),
      (12439, 12440), (12544, 12548), (12592, 12592), (12687, 12687), (12772, 12783),
      (12831, 12831), (42125, 42127), (42183, 42191), (42540, 42559), (42744, 42751),
      (42955, 42959), (42962, 42962), (42964, 42964), (42970, 42993), (43053, 43055),
      (43066, 43071), (43128, 43135), (43206, 43213), (43226, 43231), (43348, 43358),
      (43389, 43391), (43470, 43470), (43482, 43485), (43519, 43519), (43575, 43583),
      (43598, 43599), (43610, 43611), (43715, 43738), (43767, 43776), (43783, 43784),
      (43791, 43792), (43799, 43807), (43815, 43815), (43823, 43823), (43884, 43887),
      (44014, 44015), (44026, 44031), (55204, 55215), (55239, 55242), (55292, 63743),
      (64110, 64111), (64218, 64255), (64263, 64274), (64280, 64284), (64311, 64311),
      (64317, 64317), (64319, 64319), (64322, 64322), (64325, 64325), (64451, 64466),
      (64912, 64913), (64968, 64974), (64976, 65007), (65050, 65055), (65107, 65107),
      (65127, 65127), (65132, 65135), (65141, 65141), (65277, 65280), (65471, 65473),
      (65480, 65481), (65488, 65489), (65496, 65497), (65501, 65503), (65511, 65511),
      (65519, 65531), (65534, 65535), (65548, 65548), (65575, 65575), (65595, 65595),
      (65598, 65598), (65614, 65615), (65630, 65663), (65787, 65791), (65795, 65798),
      (65844, 65846), (65935, 65935), (65949, 65951), (65953, 65999), (66046, 66175),
      (66205, 66207), (66257, 66271), (66300, 66303), (66340, 66348), (66379, 66383),
      (66427, 66431), (66462, 66462), (66500, 66503), (66518, 66559), (66718, 66719),
      (66730, 66735), (66772, 66775), (66812, 66815), (66856, 66863), (66916, 66926),
      (66939, 66939), (66955, 66955), (66963, 66963), (66966, 66966), (66978, 66978),
      (66994, 66994), (67002, 67002), (67005, 67071), (67383, 67391), (67414, 67423),
      (67432, 67455), (67462, 67462), (67505, 67505), (67515, 67583), (67590, 67591),
      (67593, 67593), (67638, 67638), (67641, 67643), (67645, 67646), (67670, 67670),
      (67743, 67750), (67760, 67807), (67827, 67827), (67830, 67834), (67868, 67870),
      (67898, 67902), (67904, 67967), (68024, 68027), (68048, 68049), (68100, 68100),
      (68103, 68107), (68116, 68116), (68120, 68120), (68150, 68151), (68155, 68158),
      (68169, 68175), (68185, 68191), (68256, 68287), (68327, 68330), (68343, 68351),
      (68406, 68408), (68438, 68439), (68467, 68471), (68498, 68504), (68509, 68520),
      (68528, 68607), (68681, 68735), (68787, 68799), (68851, 68857), (68904, 68911),
      (68922, 69215), (69247, 69247), (69290, 69290), (69294, 69295), (69298, 69375),
      (69416, 69423), (69466, 69487), (69514, 69551), (69580, 69599), (69623, 69631),
      (69710, 69713), (69750, 69758), (69821, 69821), (69827, 69839), (69865, 69871),
      (69882, 69887), (69941, 69941), (69960, 69967), (70007, 70015), (70112, 70112),
      (70133, 70143), (70162, 70162), (70207, 70271), (70279, 70279), (70281, 70281),
      (70286, 70286), (70302, 70302), (70314, 70319), (70379, 70383), (70394, 70399),
      (70404, 70404), (70413, 70414), (70417, 70418), (70441, 70441), (70449, 70449),
      (70452, 70452), (70458, 70458), (70469, 70470), (70473, 70474), (70478, 70479),
      (70481, 70486), (70488, 70492), (70500, 70501), (70509, 70511), (70517, 70655),
      (70748, 70748), (70754, 70783), (70856, 70863), (70874, 71039), (71094, 71095),
      (71134, 71167), (71237, 71247), (71258, 71263), (71277, 71295), (71354, 71359),
      (71370, 71423), (71451, 71452), (71468, 71471), (71495, 71679), (71740, 71839),
      (71923, 71934), (71943, 71944), (71946, 71947), (71956, 71956), (71959, 71959),
      (71990, 71990), (71993, 71994), (72007, 72015), (72026, 72095), (72104, 72105),
      (72152, 72153), (72165, 72191), (72264, 72271), (72355, 72367), (72441, 72703),
      (72713, 72713), (72759, 72759), (72774, 72783), (72813, 72815), (72848, 72849),
      (72872, 72872), (72887, 72959), (72967, 72967), (72970, 72970), (73015, 73017),
      (73019, 73019), (73022, 73022), (73032, 73039), (73050, 73055), (73062, 73062),
      (73065, 73065), (73103, 73103), (73106, 73106), (73113, 73119), (73130, 73439),
      (73465, 73647), (73649, 73663), (73714, 73726), (74650, 74751), (74863, 74863),
      (74869, 74879), (75076, 77711), (77811, 77823), (78895, 82943), (83527, 92159),
      (92729, 92735), (92767, 92767), (92778, 92781), (92863, 92863), (92874, 92879),
      (92910, 92911), (92918, 92927), (92998, 93007), (93018, 93018), (93026, 93026),
      (93048, 93052), (93072, 93759), (93851, 93951), (94027, 94030), (94088, 94094),
      (94112, 94175), (94181, 94191), (94194, 94207), (100344, 100351), (101590, 101631),
      (101641, 110575), (110580, 110580), (110588, 110588), (110591, 110591), (110883, 110927),
      (110931, 110947), (110952, 110959), (111356, 113663), (113771, 113775), (113789, 113791),
      (113801, 113807), (113818, 113819), (113824, 118527), (118574, 118575), (118599, 118607),
      (118724, 118783), (119030, 119039), (119079, 119080), (119155, 119162), (119275, 119295),
      (119366, 119519), (119540, 119551), (119639, 119647), (119673, 119807), (119893, 119893),
      (119965, 119965), (119968, 119969), (119971, 119972), (119975, 119976), (119981, 119981),
      (119994, 119994), (119996, 119996), (120004, 120004), (120070, 120070), (120075, 120076),
      (120085, 120085), (120093, 120093), (120122, 120122), (120127, 120127), (120133, 120133),
      (120135, 120137), (120145, 120145), (120486, 120487), (120780, 120781), (121484, 121498),
      (121504, 121504), (121520, 122623), (122655, 122879), (122887, 122887), (122905, 122906),
      (122914, 122914), (122917, 122917), (122923, 123135), (123181, 123183), (123198, 123199),
      (123210, 123213), (123216, 123535), (123567, 123583), (123642, 123646), (123648, 124895),
      (124903, 124903), (124908, 124908), (124911, 124911), (124927, 124927), (125125, 125126),
      (125143, 125183), (125260, 125263), (125274, 125277), (125280, 126064), (126133, 126208),
      (126270, 126463), (126468, 126468), (126496, 126496), (126499, 126499), (126501, 126502),
      (126504, 126504), (126515, 126515), (126520, 126520), (126522, 126522), (126524, 126529),
      (126531, 126534), (126536, 126536), (126538, 126538), (126540, 126540), (126544, 126544),
      (126547, 126547), (126549, 126550), (126552, 126552), (126554, 126554), (126556, 126556),
      (126558, 126558), (126560, 126560), (126563, 126563), (126565, 126566), (126571, 126571),
      (126579, 126579), (126584, 126584), (126589, 126589), (126591, 126591), (126602, 126602),
      (126620, 126624), (126628, 126628), (126634, 126634), (126652, 126703), (126706, 126975),
      (127020, 127023), (127124, 127135), (127151, 127152), (127168, 127168), (127184, 127184),
      (127222, 127231), (127406, 127461), (127491, 127503), (127548, 127551), (127561, 127567),
      (127570, 127583), (127590, 127743), (128728, 128732), (128749, 128751), (128765, 128767),
      (128884, 128895), (128985, 128991), (129004, 129007), (129009, 129023), (129036, 129039),
      (129096, 129103), (129114, 129119), (129160, 129167), (129198, 129199), (129202, 129279),
      (129620, 129631), (129646, 129647), (129653, 129655), (129661, 129663), (129671, 129679),
      (129709, 129711), (129723, 129727), (129734, 129743), (129754, 129759), (129768, 129775),
      (129783, 129791), (129939, 129939), (129995, 130031), (130042, 131071), (173792, 173823),
      (177977, 177983), (178206, 178207), (183970, 183983), (191457, 194559), (195102, 196607),
      (201547, 917759), (918000, 1114111)]"

definition isprintable :: "nat \<Rightarrow> bool" where
  "isprintable cp =
     (if cp < 128 then 32 \<le> cp \<and> cp < 127
      else \<not> list_ex (\<lambda>r. fst r \<le> cp \<and> cp \<le> snd r) not_printable_ranges)"

subsection \<open>Conversion to text: \<open>str\<close> and \<open>repr\<close>\<close>

definition digit_char :: "nat \<Rightarrow> char" where
  "digit_char d = ''0123456789'' ! d"

fun nat_digits :: "nat \<Rightarrow> string" where
  "nat_digits n = (if n < 10 then [digit_char n] else nat_digits (n div 10) @ [digit_char (n mod 10)])"

declare nat_digits.simps [simp del]

definition py_str_int :: "int \<Rightarrow> string" where
  "py_str_int i = (if i < 0 then CHR ''-'' # nat_digits (nat (- i)) else nat_digits (nat i))"

definition hex_char :: "nat \<Rightarrow> char" where
  "hex_char d = ''0123456789abcdef'' ! d"

definition hex_fixed :: "nat \<Rightarrow> nat \<Rightarrow> string" where
  "hex_fixed width n = map (\<lambda>i. hex_char (n div 16 ^ i mod 16)) (rev [0..<width])"

text \<open>One character inside \<open>repr\<close> of a string delimited by the quote \<open>q\<close>: the quote
  and the backslash are escaped, tab, newline and carriage return have their letter, a
  printable character is kept, and any other character is written with its code point in
  hexadecimal, as \<open>\xNN\<close>, \<open>\uNNNN\<close> or \<open>\UNNNNNNNN\<close>.\<close>

definition repr_char :: "char \<Rightarrow> string \<Rightarrow> string" where
  "repr_char q g =
     (let cp = code_point g in
      if g = [q] \<or> g = [CHR 0x5C] then CHR 0x5C # g
      else if g = [CHR 0x09] then [CHR 0x5C, CHR ''t'']
      else if g = [CHR 0x0A] then [CHR 0x5C, CHR ''n'']
      else if g = [CHR 0x0D] then [CHR 0x5C, CHR ''r'']
      else if isprintable cp then g
      else if cp < 256 then [CHR 0x5C, CHR ''x''] @ hex_fixed 2 cp
      else if cp < 65536 then [CHR 0x5C, CHR ''u''] @ hex_fixed 4 cp
      else [CHR 0x5C, CHR ''U''] @ hex_fixed 8 cp)"

text \<open>Python delimits with single quotes, unless the string has a single quote and no
  double quote.\<close>

definition repr_quote :: "string \<Rightarrow> char" where
  "repr_quote s = (if CHR 0x27 \<in> set s \<and> CHR 0x22 \<notin> set s then CHR 0x22 else CHR 0x27)"

definition py_repr_str :: "string \<Rightarrow> string" where
  "py_repr_str s = (let q = repr_quote s in q # concat (map (repr_char q) (utf8_chars s)) @ [q])"

text \<open>The strings that \<open>repr\<close> writes unchanged between its quotes: printable
  characters only, no backslash, and not both kinds of quote.\<close>

definition plain_text :: "string \<Rightarrow> bool" where
  "plain_text m =
     (list_all (\<lambda>g. isprintable (code_point g) \<and> g \<noteq> [CHR 0x5C]) (utf8_chars m) \<and>
      \<not> (CHR 0x27 \<in> set m \<and> CHR 0x22 \<in> set m))"

fun join_comma :: "string list \<Rightarrow> string" where
  "join_comma [] = []"
| "join_comma [x] = x"
| "join_comma (x # y # ys) = x @ '', '' @ join_comma (y # ys)"

fun py_repr :: "pyval \<Rightarrow> string" where
  "py_repr PNone = ''None''"
| "py_repr (PBool b) = (if b then ''True'' else ''False'')"
| "py_repr (PInt i) = py_str_int i"
| "py_repr (PStr s) = py_repr_str s"
| "py_repr (PList xs) = ''['' @ join_comma (map py_repr xs) @ '']''"
| "py_repr (PDict kvs) =
     ''{'' @ join_comma (map (\<lambda>kv. py_repr_str (fst kv) @ '': '' @ py_repr (snd kv)) kvs) @ ''}''"

text \<open>\<open>str(x)\<close>, which is what an f-string field \<open>{x}\<close> inserts: a string is inserted
  as it is, every other value through \<open>repr\<close>.\<close>

fun py_str :: "pyval \<Rightarrow> string" where
  "py_str (PStr s) = s"
| "py_str v = py_repr v"

subsection \<open>The operations the module applies to a decoded response\<close>

text \<open>\<open>k in x\<close> for a string \<open>k\<close>: key membership in a dictionary, element membership
  in a list, substring test in a string; \<open>TypeError\<close> on a value that is not iterable.\<close>

fun py_in :: "string \<Rightarrow> pyval \<Rightarrow> bool result" where
  "py_in k (PDict kvs) = Inr (k \<in> fst ` set kvs)"
| "py_in k (PList xs) = Inr (PStr k \<in> set xs)"
| "py_in k (PStr s) = Inr (sublist k s)"
| "py_in k v = Inl TypeError"

text \<open>\<open>x[k]\<close> for a string \<open>k\<close>.\<close>

fun py_getitem :: "pyval \<Rightarrow> string \<Rightarrow> pyval result" where
  "py_getitem (PDict kvs) k = (case map_of kvs k of Some v \<Rightarrow> Inr v | None \<Rightarrow> Inl KeyError)"
| "py_getitem v k = Inl TypeError"

text \<open>\<open>x.get(k, d)\<close>: only a dictionary has the method.\<close>

fun py_get :: "pyval \<Rightarrow> string \<Rightarrow> pyval \<Rightarrow> pyval result" where
  "py_get (PDict kvs) k d = (case map_of kvs k of Some v \<Rightarrow> Inr v | None \<Rightarrow> Inr d)"
| "py_get v k d = Inl AttributeError"

text \<open>\<open>x[0]\<close>. The first character of a string is its first byte together with the UTF-8
  continuation bytes that follow it. A decoded dictionary has string keys only, so the key
  \<open>0\<close> is never found.\<close>

fun py_first :: "pyval \<Rightarrow> pyval result" where
  "py_first (PList []) = Inl IndexError"
| "py_first (PList (x # xs)) = Inr x"
| "py_first (PStr []) = Inl IndexError"
| "py_first (PStr (c # cs)) = Inr (PStr (c # takeWhile is_continuation cs))"
| "py_first (PDict kvs) = Inl KeyError"
| "py_first v = Inl TypeError"

section \<open>Transport\<close>

text \<open>The HTTP session object, with the two attributes that decide which proxy a request
  goes through. \<open>Session\<close> is a fresh \<open>requests.Session()\<close>; \<open>session\<close> is the module's
  global after \<open>session.trust_env = False\<close>.\<close>

record requests_session =
  trust_env :: bool
  proxies :: "(string \<times> string) list"

definition Session :: requests_session where
  "Session = \<lparr>trust_env = True, proxies = []\<rparr>"

definition session :: requests_session where
  "session = Session\<lparr>trust_env := False\<rparr>"

text \<open>The proxies \<open>requests\<close> uses for a request sent through a session, when the call
  names none itself: the ambient ones (environment variables, system settings) are consulted
  only when \<open>trust_env\<close> is set, and are then merged with the session's own entries.\<close>

definition proxies_used :: "requests_session \<Rightarrow> (string \<times> string) list \<Rightarrow> (string \<times> string) list" where
  "proxies_used s ambient = (if trust_env s then AList.merge (proxies s) ambient else proxies s)"

record rpc_params =
  p_name :: string
  p_arguments :: pydict

record rpc_payload =
  p_jsonrpc :: string
  p_id :: int
  p_method :: string
  p_params :: rpc_params

record http_post =
  post_url :: string
  post_json :: rpc_payload
  post_timeout :: int
  post_session :: requests_session

text \<open>What \<open>session.post\<close> gives: it raises a \<open>RequestException\<close> (connection refused,
  DNS failure, timeout, ...) whose text is the string, or it returns a response with a status
  code, a reason phrase, the final URL and a body. The body is given as \<open>response.json()\<close>
  decodes it; \<open>Inl m\<close> is a body that is not JSON, for which \<open>response.json()\<close> raises
  the \<open>JSONDecodeError\<close> of \<open>requests\<close>, a \<open>RequestException\<close> with text \<open>m\<close>.\<close>

datatype http_outcome =
    RequestException string
  | Response int string string "string + pyval"

text \<open>\<open>response.raise_for_status()\<close>: the text of the \<open>HTTPError\<close> it raises, a
  \<open>RequestException\<close>, or \<open>None\<close> when it returns.\<close>

definition raise_for_status :: "int \<Rightarrow> string \<Rightarrow> string \<Rightarrow> string option" where
  "raise_for_status status reason url =
     (if 400 \<le> status \<and> status < 500
        then Some (py_str_int status @ '' Client Error: '' @ reason @ '' for url: '' @ url)
      else if 500 \<le> status \<and> status < 600
        then Some (py_str_int status @ '' Server Error: '' @ reason @ '' for url: '' @ url)
      else None)"

text \<open>Everything outside the module: the two configuration values read from the environment
  at import, \<open>json.loads\<close> on a string (the value it returns or the exception it raises),
  and the remote service together with the network, which answer a posted request.\<close>

record world =
  PROXYPIN_HOST :: string
  PROXYPIN_PORT :: int
  json_loads :: "string \<Rightarrow> py_exc + pyval"
  remote :: "http_post \<Rightarrow> http_outcome"

definition BASE_URL :: "world \<Rightarrow> string" where
  "BASE_URL w = ''http://'' @ PROXYPIN_HOST w @ '':'' @ py_str_int (PROXYPIN_PORT w)"

definition MESSAGES_URL :: "world \<Rightarrow> string" where
  "MESSAGES_URL w = BASE_URL w @ ''/messages''"

text \<open>The state of the process: the global counter, and the requests handed to
  \<open>session.post\<close> so far, oldest first (the effect of the module on the network).\<close>

record bridge_state =
  request_id_counter :: int
  wire :: "http_post list"

definition initial_state :: bridge_state where
  "initial_state = \<lparr>request_id_counter = 1, wire = []\<rparr>"

text \<open>The UTF-8 bytes of the prefix of the connection-failure message, \<open>ProxyPin\<close>, four
  Chinese characters (U+8FDE, U+63A5, U+5931, U+8D25), a colon and a space.\<close>

definition connect_failed_prefix :: string where
  "connect_failed_prefix =
     ''ProxyPin'' @
     [CHR 0xE8, CHR 0xBF, CHR 0x9E, CHR 0xE6, CHR 0x8E, CHR 0xA5,
      CHR 0xE5, CHR 0xA4, CHR 0xB1, CHR 0xE8, CHR 0xB4, CHR 0xA5] @ '': ''"

text \<open>\<open>json.loads(text)\<close> on a Python value: a string is decoded, any other value is a
  \<open>TypeError\<close>.\<close>

fun loads_value :: "(string \<Rightarrow> py_exc + pyval) \<Rightarrow> pyval \<Rightarrow> pyval result" where
  "loads_value loads (PStr t) = loads t"
| "loads_value loads v = Inl TypeError"

text \<open>The body of the \<open>try\<close> block from the decoded response on (lines 43 to 51).\<close>

definition unwrap_result :: "(string \<Rightarrow> py_exc + pyval) \<Rightarrow> pyval \<Rightarrow> pyval result" where
  "unwrap_result loads result =
     and_then (py_in ''error'' result) (\<lambda>has_error.
       if has_error then
         and_then (py_getitem result ''error'') (\<lambda>err.
           Inl (PyException (''MCP Error: '' @ py_str err)))
       else
         and_then (py_get result ''result'' (PDict [])) (\<lambda>r.
         and_then (py_get r ''content'' (PList [])) (\<lambda>content.
           if truthy content then
             and_then (py_first content) (\<lambda>first.
             and_then (py_get first ''text'' (PStr ''{}'')) (\<lambda>text.
               loads_value loads text))
           else Inr (PDict []))))"

text \<open>The \<open>try\<close> block with its handler: every \<open>RequestException\<close> becomes an
  \<open>Exception\<close> with the prefix and the text of the cause; nothing else is caught.\<close>

definition handle_outcome :: "(string \<Rightarrow> py_exc + pyval) \<Rightarrow> http_outcome \<Rightarrow> pyval result" where
  "handle_outcome loads out =
     (case out of
        RequestException e \<Rightarrow> Inl (PyException (connect_failed_prefix @ e))
      | Response status reason url body \<Rightarrow>
          (case raise_for_status status reason url of
             Some e \<Rightarrow> Inl (PyException (connect_failed_prefix @ e))
           | None \<Rightarrow>
               (case body of
                  Inl e \<Rightarrow> Inl (PyException (connect_failed_prefix @ e))
                | Inr result \<Rightarrow> unwrap_result loads result)))"

definition call_proxypin_tool ::
  "world \<Rightarrow> string \<Rightarrow> pydict option \<Rightarrow> bridge_state \<Rightarrow> pyval result \<times> bridge_state" where
  "call_proxypin_tool w tool_name arguments s =
     (let arguments = (case arguments of None \<Rightarrow> [] | Some a \<Rightarrow> a);
          payload = \<lparr>p_jsonrpc = ''2.0'',
                     p_id = request_id_counter s,
                     p_method = ''tools/call'',
                     p_params = \<lparr>p_name = tool_name, p_arguments = arguments\<rparr>\<rparr>;
          request = \<lparr>post_url = MESSAGES_URL w, post_json = payload,
                     post_timeout = 30, post_session = session\<rparr>;
          s' = s\<lparr>request_id_counter := request_id_counter s + 1,
                 wire := wire s @ [request]\<rparr>
      in (handle_outcome (json_loads w) (remote w request), s'))"

section \<open>The tools\<close>

text \<open>
  A parameter of a tool is a Python value. A parameter declared with a default is given as
  an option: \<open>None\<close> is a call that does not pass it, and the declared default is used.
  (HOL's \<open>None\<close> is the absence of the argument; Python's \<open>None\<close> is \<open>PNone\<close>.)
\<close>

definition passed_or :: "pyval \<Rightarrow> pyval option \<Rightarrow> pyval" where
  "passed_or dflt a = (case a of None \<Rightarrow> dflt | Some v \<Rightarrow> v)"

text \<open>The statement \<open>if c: args[k] = v\<close>.\<close>

definition set_if :: "bool \<Rightarrow> string \<Rightarrow> pyval \<Rightarrow> pydict \<Rightarrow> pydict" where
  "set_if c k v args = (if c then AList.update k v args else args)"

record search_requests_kwargs =
  sr_query :: "pyval option"
  sr_method :: "pyval option"
  sr_status_code :: "pyval option"
  sr_domain :: "pyval option"
  sr_header_search :: "pyval option"
  sr_request_body_search :: "pyval option"
  sr_response_body_search :: "pyval option"
  sr_min_duration :: "pyval option"
  sr_max_duration :: "pyval option"
  sr_limit :: "pyval option"

definition no_kwargs :: search_requests_kwargs where
  "no_kwargs = \<lparr>sr_query = None, sr_method = None, sr_status_code = None, sr_domain = None,
     sr_header_search = None, sr_request_body_search = None, sr_response_body_search = None,
     sr_min_duration = None, sr_max_duration = None, sr_limit = None\<rparr>"

definition search_requests_args :: "search_requests_kwargs \<Rightarrow> pydict" where
  "search_requests_args kw =
     (let query = passed_or PNone (sr_query kw);
          method = passed_or PNone (sr_method kw);
          status_code = passed_or PNone (sr_status_code kw);
          domain = passed_or PNone (sr_domain kw);
          header_search = passed_or PNone (sr_header_search kw);
          request_body_search = passed_or PNone (sr_request_body_search kw);
          response_body_search = passed_or PNone (sr_response_body_search kw);
          min_duration = passed_or PNone (sr_min_duration kw);
          max_duration = passed_or PNone (sr_max_duration kw);
          limit = passed_or (PInt 20) (sr_limit kw);
          args = [(''limit'', limit)];
          args = set_if (truthy query) ''query'' query args;
          args = set_if (truthy method) ''method'' method args;
          args = set_if (truthy status_code) ''status_code'' status_code args;
          args = set_if (truthy domain) ''domain'' domain args;
          args = set_if (truthy header_search) ''header_search'' header_search args;
          args = set_if (truthy request_body_search) ''request_body_search'' request_body_search args;
          args = set_if (truthy response_body_search) ''response_body_search'' response_body_search args;
          args = set_if (min_duration \<noteq> PNone) ''min_duration'' min_duration args;
          args = set_if (max_duration \<noteq> PNone) ''max_duration'' max_duration args
      in args)"

definition search_requests ::
  "world \<Rightarrow> search_requests_kwargs \<Rightarrow> bridge_state \<Rightarrow> pyval result \<times> bridge_state" where
  "search_requests w kw = call_proxypin_tool w ''search_requests'' (Some (search_requests_args kw))"

definition get_request_details ::
  "world \<Rightarrow> pyval \<Rightarrow> bridge_state \<Rightarrow> pyval result \<times> bridge_state" where
  "get_request_details w request_id =
     call_proxypin_tool w ''get_request_details'' (Some [(''request_id'', request_id)])"

definition replay_request ::
  "world \<Rightarrow> pyval \<Rightarrow> bridge_state \<Rightarrow> pyval result \<times> bridge_state" where
  "replay_request w request_id =
     call_proxypin_tool w ''replay_request'' (Some [(''request_id'', request_id)])"

definition generate_code ::
  "world \<Rightarrow> pyval \<Rightarrow> pyval option \<Rightarrow> bridge_state \<Rightarrow> pyval result \<times> bridge_state" where
  "generate_code w request_id language_arg =
     (let language = passed_or (PStr ''python'') language_arg
      in call_proxypin_tool w ''generate_code''
           (Some [(''request_id'', request_id), (''language'', language)]))"

definition get_curl ::
  "world \<Rightarrow> pyval \<Rightarrow> bridge_state \<Rightarrow> pyval result \<times> bridge_state" where
  "get_curl w request_id =
     call_proxypin_tool w ''get_curl'' (Some [(''request_id'', request_id)])"

definition block_url ::
  "world \<Rightarrow> pyval \<Rightarrow> pyval option \<Rightarrow> bridge_state \<Rightarrow> pyval result \<times> bridge_state" where
  "block_url w url_pattern block_type_arg =
     (let block_type = passed_or (PStr ''blockRequest'') block_type_arg
      in call_proxypin_tool w ''block_url''
           (Some [(''url_pattern'', url_pattern), (''block_type'', block_type)]))"

definition add_response_rewrite ::
  "world \<Rightarrow> pyval \<Rightarrow> pyval \<Rightarrow> pyval \<Rightarrow> pyval option \<Rightarrow> bridge_state
     \<Rightarrow> pyval result \<times> bridge_state" where
  "add_response_rewrite w url_pattern rewrite_type val key_arg =
     (let key = passed_or PNone key_arg;
          args = [(''url_pattern'', url_pattern), (''rewrite_type'', rewrite_type), (''value'', val)];
          args = set_if (truthy key) ''key'' key args
      in call_proxypin_tool w ''add_response_rewrite'' (Some args))"

definition add_request_rewrite ::
  "world \<Rightarrow> pyval \<Rightarrow> pyval \<Rightarrow> pyval \<Rightarrow> pyval \<Rightarrow> bridge_state
     \<Rightarrow> pyval result \<times> bridge_state" where
  "add_request_rewrite w url_pattern rewrite_type key val =
     call_proxypin_tool w ''add_request_rewrite''
       (Some [(''url_pattern'', url_pattern), (''rewrite_type'', rewrite_type),
              (''key'', key), (''value'', val)])"

definition update_script ::
  "world \<Rightarrow> pyval \<Rightarrow> pyval \<Rightarrow> pyval \<Rightarrow> bridge_state \<Rightarrow> pyval result \<times> bridge_state" where
  "update_script w name url_pattern script_content =
     call_proxypin_tool w ''update_script''
       (Some [(''name'', name), (''url_pattern'', url_pattern),
              (''script_content'', script_content)])"

definition get_scripts :: "world \<Rightarrow> bridge_state \<Rightarrow> pyval result \<times> bridge_state" where
  "get_scripts w = call_proxypin_tool w ''get_scripts'' None"

definition set_config ::
  "world \<Rightarrow> pyval option \<Rightarrow> pyval option \<Rightarrow> bridge_state \<Rightarrow> pyval result \<times> bridge_state" where
  "set_config w system_proxy_arg ssl_capture_arg =
     (let system_proxy = passed_or PNone system_proxy_arg;
          ssl_capture = passed_or PNone ssl_capture_arg;
          args = [];
          args = set_if (system_proxy \<noteq> PNone) ''system_proxy'' system_proxy args;
          args = set_if (ssl_capture \<noteq> PNone) ''ssl_capture'' ssl_capture args
      in call_proxypin_tool w ''set_config'' (Some args))"

definition add_host_mapping ::
  "world \<Rightarrow> pyval \<Rightarrow> pyval \<Rightarrow> bridge_state \<Rightarrow> pyval result \<times> bridge_state" where
  "add_host_mapping w domain ip =
     call_proxypin_tool w ''add_host_mapping'' (Some [(''domain'', domain), (''ip'', ip)])"

definition get_proxy_status :: "world \<Rightarrow> bridge_state \<Rightarrow> pyval result \<times> bridge_state" where
  "get_proxy_status w = call_proxypin_tool w ''get_proxy_status'' None"

definition export_har ::
  "world \<Rightarrow> pyval option \<Rightarrow> bridge_state \<Rightarrow> pyval result \<times> bridge_state" where
  "export_har w limit_arg =
     (let limit = passed_or (PInt 100) limit_arg
      in call_proxypin_tool w ''export_har'' (Some [(''limit'', limit)]))"

definition import_har ::
  "world \<Rightarrow> pyval \<Rightarrow> bridge_state \<Rightarrow> pyval result \<times> bridge_state" where
  "import_har w har_content =
     call_proxypin_tool w ''import_har'' (Some [(''har_content'', har_content)])"

definition start_proxy ::
  "world \<Rightarrow> pyval option \<Rightarrow> bridge_state \<Rightarrow> pyval result \<times> bridge_state" where
  "start_proxy w port_arg =
     (let port = passed_or (PInt 9099) port_arg
      in call_proxypin_tool w ''start_proxy'' (Some [(''port'', port)]))"

definition stop_proxy :: "world \<Rightarrow> bridge_state \<Rightarrow> pyval result \<times> bridge_state" where
  "stop_proxy w = call_proxypin_tool w ''stop_proxy'' None"

definition get_recent_requests ::
  "world \<Rightarrow> pyval option \<Rightarrow> pyval option \<Rightarrow> pyval option \<Rightarrow> bridge_state
     \<Rightarrow> pyval result \<times> bridge_state" where
  "get_recent_requests w limit_arg url_filter_arg method_arg =
     (let limit = passed_or (PInt 20) limit_arg;
          url_filter = passed_or PNone url_filter_arg;
          method = passed_or PNone method_arg;
          args = [(''limit'', limit)];
          args = set_if (truthy url_filter) ''url_filter'' url_filter args;
          args = set_if (truthy method) ''method'' method args
      in call_proxypin_tool w ''get_recent_requests'' (Some args))"

definition clear_requests :: "world \<Rightarrow> bridge_state \<Rightarrow> pyval result \<times> bridge_state" where
  "clear_requests w = call_proxypin_tool w ''clear_requests'' None"

definition get_statistics :: "world \<Rightarrow> bridge_state \<Rightarrow> pyval result \<times> bridge_state" where
  "get_statistics w = call_proxypin_tool w ''get_statistics'' None"

definition compare_requests ::
  "world \<Rightarrow> pyval \<Rightarrow> pyval \<Rightarrow> bridge_state \<Rightarrow> pyval result \<times> bridge_state" where
  "compare_requests w request_id_1 request_id_2 =
     call_proxypin_tool w ''compare_requests''
       (Some [(''request_id_1'', request_id_1), (''request_id_2'', request_id_2)])"

definition find_similar_requests ::
  "world \<Rightarrow> pyval \<Rightarrow> pyval option \<Rightarrow> bridge_state \<Rightarrow> pyval result \<times> bridge_state" where
  "find_similar_requests w request_id limit_arg =
     (let limit = passed_or (PInt 10) limit_arg
      in call_proxypin_tool w ''find_similar_requests''
           (Some [(''request_id'', request_id), (''limit'', limit)]))"

definition extract_api_endpoints ::
  "world \<Rightarrow> pyval option \<Rightarrow> bridge_state \<Rightarrow> pyval result \<times> bridge_state" where
  "extract_api_endpoints w domain_filter_arg =
     (let domain_filter = passed_or PNone domain_filter_arg;
          args = [];
          args = set_if (truthy domain_filter) ''domain_filter'' domain_filter args
      in call_proxypin_tool w ''extract_api_endpoints'' (Some args))"

section \<open>Calls of the tools\<close>

text \<open>One constructor for each registered tool, with the arguments of the call.\<close>

datatype tool_call =
    SearchRequests search_requests_kwargs
  | GetRequestDetails pyval
  | ReplayRequest pyval
  | GenerateCode pyval "pyval option"
  | GetCurl pyval
  | BlockUrl pyval "pyval option"
  | AddResponseRewrite pyval pyval pyval "pyval option"
  | AddRequestRewrite pyval pyval pyval pyval
  | UpdateScript pyval pyval pyval
  | GetScripts
  | SetConfig "pyval option" "pyval option"
  | AddHostMapping pyval pyval
  | GetProxyStatus
  | ExportHar "pyval option"
  | ImportHar pyval
  | StartProxy "pyval option"
  | StopProxy
  | GetRecentRequests "pyval option" "pyval option" "pyval option"
  | ClearRequests
  | GetStatistics
  | CompareRequests pyval pyval
  | FindSimilarRequests pyval "pyval option"
  | ExtractApiEndpoints "pyval option"

fun invoke :: "world \<Rightarrow> tool_call \<Rightarrow> bridge_state \<Rightarrow> pyval result \<times> bridge_state" where
  "invoke w (SearchRequests kw) = search_requests w kw"
| "invoke w (GetRequestDetails request_id) = get_request_details w request_id"
| "invoke w (ReplayRequest request_id) = replay_request w request_id"
| "invoke w (GenerateCode request_id language) = generate_code w request_id language"
| "invoke w (GetCurl request_id) = get_curl w request_id"
| "invoke w (BlockUrl url_pattern block_type) = block_url w url_pattern block_type"
| "invoke w (AddResponseRewrite url_pattern rewrite_type val key) =
     add_response_rewrite w url_pattern rewrite_type val key"
| "invoke w (AddRequestRewrite url_pattern rewrite_type key val) =
     add_request_rewrite w url_pattern rewrite_type key val"
| "invoke w (UpdateScript name url_pattern script_content) =
     update_script w name url_pattern script_content"
| "invoke w GetScripts = get_scripts w"
| "invoke w (SetConfig system_proxy ssl_capture) = set_config w system_proxy ssl_capture"
| "invoke w (AddHostMapping domain ip) = add_host_mapping w domain ip"
| "invoke w GetProxyStatus = get_proxy_status w"
| "invoke w (ExportHar limit) = export_har w limit"
| "invoke w (ImportHar har_content) = import_har w har_content"
| "invoke w (StartProxy port) = start_proxy w port"
| "invoke w StopProxy = stop_proxy w"
| "invoke w (GetRecentRequests limit url_filter method) =
     get_recent_requests w limit url_filter method"
| "invoke w ClearRequests = clear_requests w"
| "invoke w GetStatistics = get_statistics w"
| "invoke w (CompareRequests request_id_1 request_id_2) =
     compare_requests w request_id_1 request_id_2"
| "invoke w (FindSimilarRequests request_id limit) = find_similar_requests w request_id limit"
| "invoke w (ExtractApiEndpoints domain_filter) = extract_api_endpoints w domain_filter"

text \<open>A sequence of calls in one process. A call that raises leaves the process running
  (the exception goes to the caller of the tool), so the next call starts from the state
  the failed one left.\<close>

fun run_calls :: "world \<Rightarrow> tool_call list \<Rightarrow> bridge_state \<Rightarrow> bridge_state" where
  "run_calls w [] s = s"
| "run_calls w (c # cs) s = run_calls w cs (snd (invoke w c s))"

text \<open>The argument mapping of the request a call sends.\<close>

definition sent_arguments :: "world \<Rightarrow> tool_call \<Rightarrow> bridge_state \<Rightarrow> pydict" where
  "sent_arguments w c s = p_arguments (p_params (post_json (last (wire (snd (invoke w c s))))))"

subsection \<open>The declared parameters\<close>

text \<open>The signatures of the tools, as tables. A parameter without a default is required.
  A parameter whose default is \<open>None\<close> is optional: the function body decides whether its
  key is sent, with \<open>if x:\<close> (\<open>Truthy\<close>) or with \<open>if x is not None:\<close> (\<open>NotNone\<close>).
  The remaining parameters have a default that is a value. Each entry carries what the
  call supplied.\<close>

datatype inclusion_test = Truthy | NotNone

fun passes :: "inclusion_test \<Rightarrow> pyval \<Rightarrow> bool" where
  "passes Truthy v = truthy v"
| "passes NotNone v = (v \<noteq> PNone)"

fun required_params :: "tool_call \<Rightarrow> (string \<times> pyval) list" where
  "required_params (GetRequestDetails request_id) = [(''request_id'', request_id)]"
| "required_params (ReplayRequest request_id) = [(''request_id'', request_id)]"
| "required_params (GenerateCode request_id language) = [(''request_id'', request_id)]"
| "required_params (GetCurl request_id) = [(''request_id'', request_id)]"
| "required_params (BlockUrl url_pattern block_type) = [(''url_pattern'', url_pattern)]"
| "required_params (AddResponseRewrite url_pattern rewrite_type val key) =
     [(''url_pattern'', url_pattern), (''rewrite_type'', rewrite_type), (''value'', val)]"
| "required_params (AddRequestRewrite url_pattern rewrite_type key val) =
     [(''url_pattern'', url_pattern), (''rewrite_type'', rewrite_type), (''key'', key),
      (''value'', val)]"
| "required_params (UpdateScript name url_pattern script_content) =
     [(''name'', name), (''url_pattern'', url_pattern), (''script_content'', script_content)]"
| "required_params (AddHostMapping domain ip) = [(''domain'', domain), (''ip'', ip)]"
| "required_params (ImportHar har_content) = [(''har_content'', har_content)]"
| "required_params (CompareRequests request_id_1 request_id_2) =
     [(''request_id_1'', request_id_1), (''request_id_2'', request_id_2)]"
| "required_params (FindSimilarRequests request_id limit) = [(''request_id'', request_id)]"
| "required_params c = []"

fun optional_params :: "tool_call \<Rightarrow> (string \<times> inclusion_test \<times> pyval option) list" where
  "optional_params (SearchRequests kw) =
     [(''query'', Truthy, sr_query kw),
      (''method'', Truthy, sr_method kw),
      (''status_code'', Truthy, sr_status_code kw),
      (''domain'', Truthy, sr_domain kw),
      (''header_search'', Truthy, sr_header_search kw),
      (''request_body_search'', Truthy, sr_request_body_search kw),
      (''response_body_search'', Truthy, sr_response_body_search kw),
      (''min_duration'', NotNone, sr_min_duration kw),
      (''max_duration'', NotNone, sr_max_duration kw)]"
| "optional_params (AddResponseRewrite url_pattern rewrite_type val key) = [(''key'', Truthy, key)]"
| "optional_params (SetConfig system_proxy ssl_capture) =
     [(''system_proxy'', NotNone, system_proxy), (''ssl_capture'', NotNone, ssl_capture)]"
| "optional_params (GetRecentRequests limit url_filter method) =
     [(''url_filter'', Truthy, url_filter), (''method'', Truthy, method)]"
| "optional_params (ExtractApiEndpoints domain_filter) = [(''domain_filter'', Truthy, domain_filter)]"
| "optional_params c = []"

fun defaulted_params :: "tool_call \<Rightarrow> (string \<times> pyval \<times> pyval option) list" where
  "defaulted_params (SearchRequests kw) = [(''limit'', PInt 20, sr_limit kw)]"
| "defaulted_params (GenerateCode request_id language) = [(''language'', PStr ''python'', language)]"
| "defaulted_params (BlockUrl url_pattern block_type) =
     [(''block_type'', PStr ''blockRequest'', block_type)]"
| "defaulted_params (ExportHar limit) = [(''limit'', PInt 100, limit)]"
| "defaulted_params (StartProxy port) = [(''port'', PInt 9099, port)]"
| "defaulted_params (GetRecentRequests limit url_filter method) = [(''limit'', PInt 20, limit)]"
| "defaulted_params (FindSimilarRequests request_id limit) = [(''limit'', PInt 10, limit)]"
| "defaulted_params c = []"

text \<open>A call that supplies the required parameters only.\<close>

definition only_required :: "tool_call \<Rightarrow> bool" where
  "only_required c =
     (list_all (\<lambda>p. snd (snd p) = None) (optional_params c) \<and>
      list_all (\<lambda>p. snd (snd p) = None) (defaulted_params c))"

section \<open>A decoder and a remote service for concrete runs\<close>

text \<open>
  \<open>json.loads\<close> and the remote service are parameters of the model. To run the model on
  concrete responses, \<open>json_loads_lite\<close> follows the decoder of CPython 3.11 (the scanner
  of \<open>_json\<close> behind \<open>json.loads\<close>): it gives the decoded value, or the text of the
  \<open>JSONDecodeError\<close>, with the message, the line, the column and the index of the
  character where decoding stopped. A repeated key keeps its first position and its last
  value. Two things are left out. A number with a fraction or an exponent, \<open>NaN\<close> and
  \<open>Infinity\<close> decode to a \<open>float\<close>, which \<open>pyval\<close> does not have: when the scan of a
  text ends without an error and has met one of them, the result is \<open>Inl ''float''\<close>,
  which is not what \<open>json.loads\<close> gives. And the limits of the interpreter are not
  modelled: \<open>json.loads\<close> raises \<open>RecursionError\<close> on a text nested deeper than the
  recursion limit and \<open>ValueError\<close> on an integer of more than 4300 digits.
\<close>

datatype scan_error = DecodeErr string nat

text \<open>\<open>DecodeErr msg n\<close> is the error \<open>msg\<close> at the place where \<open>n\<close> bytes of the text
  remain.\<close>

definition is_ws :: "char \<Rightarrow> bool" where
  "is_ws c = (c = CHR '' '' \<or> c = CHR 0x09 \<or> c = CHR 0x0A \<or> c = CHR 0x0D)"

definition skip_ws :: "string \<Rightarrow> string" where
  "skip_ws cs = dropWhile is_ws cs"

definition is_digit :: "char \<Rightarrow> bool" where
  "is_digit c = (48 \<le> (of_char c :: nat) \<and> (of_char c :: nat) \<le> 57)"

definition digits_value :: "string \<Rightarrow> nat" where
  "digits_value ds = foldl (\<lambda>a c. 10 * a + (of_char c - 48)) 0 ds"

definition hex_value :: "char \<Rightarrow> nat option" where
  "hex_value c =
     (let n = (of_char c :: nat) in
      if 48 \<le> n \<and> n \<le> 57 then Some (n - 48)
      else if 97 \<le> n \<and> n \<le> 102 then Some (n - 87)
      else if 65 \<le> n \<and> n \<le> 70 then Some (n - 55)
      else None)"

fun hex_number :: "nat \<Rightarrow> string \<Rightarrow> nat option" where
  "hex_number a [] = Some a"
| "hex_number a (c # cs) =
     (case hex_value c of None \<Rightarrow> None | Some d \<Rightarrow> hex_number (16 * a + d) cs)"

definition simple_escape :: "char \<Rightarrow> char option" where
  "simple_escape e =
     (if e = CHR 0x22 \<or> e = CHR 0x5C \<or> e = CHR ''/'' then Some e
      else if e = CHR ''b'' then Some (CHR 0x08)
      else if e = CHR ''f'' then Some (CHR 0x0C)
      else if e = CHR ''n'' then Some (CHR 0x0A)
      else if e = CHR ''r'' then Some (CHR 0x0D)
      else if e = CHR ''t'' then Some (CHR 0x09)
      else None)"

definition invalid_unicode_escape :: string where
  "invalid_unicode_escape = ''Invalid '' @ [CHR 0x5C] @ ''uXXXX escape''"

definition invalid_escape :: string where
  "invalid_escape = ''Invalid '' @ [CHR 0x5C] @ ''escape''"

text \<open>The code point of a unicode escape whose four digits start \<open>r\<close>, and the rest after
  the escape. The scanner wants a character after the four digits; a high surrogate takes
  a following escape of a low surrogate with it, when a character follows that one too.\<close>

definition unicode_escape :: "string \<Rightarrow> scan_error + (nat \<times> string)" where
  "unicode_escape r =
     (if cp_count r \<le> 4 then Inl (DecodeErr invalid_unicode_escape (Suc (length r)))
      else case hex_number 0 (take 4 r) of
        None \<Rightarrow> Inl (DecodeErr invalid_unicode_escape (Suc (length r)))
      | Some c \<Rightarrow>
          (let r' = drop 4 r in
           if 55296 \<le> c \<and> c \<le> 56319 \<and> 7 \<le> cp_count r' \<and> take 2 r' = [CHR 0x5C, CHR ''u''] then
             (case hex_number 0 (take 4 (drop 2 r')) of
                None \<Rightarrow> Inl (DecodeErr invalid_unicode_escape (length r' - 1))
              | Some c2 \<Rightarrow>
                  if 56320 \<le> c2 \<and> c2 \<le> 57343
                  then Inr (65536 + (c - 55296) * 1024 + (c2 - 56320), drop 6 r')
                  else Inr (c, r'))
           else Inr (c, r')))"

text \<open>\<open>scanstring\<close>, strict: the characters of a string after its opening quote, and
  what follows its closing quote. \<open>b\<close> locates the opening quote.\<close>

function scanstring :: "nat \<Rightarrow> string \<Rightarrow> scan_error + (string \<times> string)" where
  "scanstring b [] = Inl (DecodeErr ''Unterminated string starting at'' b)"
| "scanstring b (c # cs) =
     (if c = CHR 0x22 then Inr ([], cs)
      else if c = CHR 0x5C then
        (case cs of
           [] \<Rightarrow> Inl (DecodeErr ''Unterminated string starting at'' b)
         | e # r \<Rightarrow>
             if e = CHR ''u'' then
               (case unicode_escape r of
                  Inl err \<Rightarrow> Inl err
                | Inr (cp, rest) \<Rightarrow>
                    (case scanstring b rest of
                       Inl err \<Rightarrow> Inl err
                     | Inr (s, after) \<Rightarrow> Inr (utf8_encode cp @ s, after)))
             else
               (case simple_escape e of
                  None \<Rightarrow> Inl (DecodeErr invalid_escape (Suc (Suc (length r))))
                | Some ch \<Rightarrow>
                    (case scanstring b r of
                       Inl err \<Rightarrow> Inl err
                     | Inr (s, after) \<Rightarrow> Inr (ch # s, after))))
      else if (of_char c :: nat) < 32 then
        Inl (DecodeErr ''Invalid control character at'' (Suc (length cs)))
      else
        (case scanstring b cs of
           Inl err \<Rightarrow> Inl err
         | Inr (s, after) \<Rightarrow> Inr (c # s, after)))"
  by pat_completeness auto
termination
  by (relation "measure (\<lambda>(b, cs). length cs)")
    (auto simp: unicode_escape_def Let_def split: if_splits option.splits)

text \<open>What the scanner's number pattern matches at the start of \<open>cs\<close>: the integer part,
  whether a fraction or an exponent follows it (the number is then a float), and the
  rest.\<close>

definition match_number :: "string \<Rightarrow> (string \<times> bool \<times> string) option" where
  "match_number cs =
     (let neg = (cs \<noteq> [] \<and> hd cs = CHR ''-'');
          r = (if neg then tl cs else cs);
          ds = (if r \<noteq> [] \<and> hd r = CHR ''0'' then ''0'' else takeWhile is_digit r);
          r1 = drop (length ds) r;
          frac = (if 2 \<le> length r1 \<and> hd r1 = CHR ''.'' \<and> is_digit (r1 ! 1)
                  then Suc (length (takeWhile is_digit (tl r1))) else 0);
          r2 = drop frac r1;
          sign = (if 2 \<le> length r2 \<and> (r2 ! 1 = CHR ''+'' \<or> r2 ! 1 = CHR ''-'') then 1 else 0);
          eds = (if r2 \<noteq> [] \<and> (hd r2 = CHR ''e'' \<or> hd r2 = CHR ''E'')
                 then takeWhile is_digit (drop (Suc sign) r2) else []);
          ex = (if eds = [] then 0 else Suc sign + length eds)
      in if ds = [] then None
         else Some ((if neg then ''-'' else []) @ ds, 0 < frac \<or> 0 < ex, drop ex r2))"

text \<open>\<open>scan_once\<close> with the decoders of arrays and objects. A result is the value,
  whether a float was met in it (its place is held by \<open>PNone\<close>), and the rest of the
  text. The first argument bounds the recursion; twice the length of the text is never
  used up.\<close>

fun scan_once :: "nat \<Rightarrow> string \<Rightarrow> scan_error + (pyval \<times> bool \<times> string)"
  and scan_array :: "nat \<Rightarrow> string \<Rightarrow> pyval list \<Rightarrow> bool \<Rightarrow> scan_error + (pyval \<times> bool \<times> string)"
  and scan_object :: "nat \<Rightarrow> string \<Rightarrow> pydict \<Rightarrow> bool \<Rightarrow> scan_error + (pyval \<times> bool \<times> string)" where
  "scan_once 0 cs = Inl (DecodeErr ''Expecting value'' (length cs))"
| "scan_once (Suc n) cs =
     (if cs = [] then Inl (DecodeErr ''Expecting value'' 0)
      else if hd cs = CHR 0x22 then
        (case scanstring (length cs) (tl cs) of
           Inl err \<Rightarrow> Inl err
         | Inr (s, r) \<Rightarrow> Inr (PStr s, False, r))
      else if hd cs = CHR ''{'' then
        (let r = skip_ws (tl cs)
         in if r \<noteq> [] \<and> hd r = CHR ''}'' then Inr (PDict [], False, tl r)
            else scan_object n r [] False)
      else if hd cs = CHR ''['' then
        (let r = skip_ws (tl cs)
         in if r \<noteq> [] \<and> hd r = CHR '']'' then Inr (PList [], False, tl r)
            else scan_array n r [] False)
      else if prefix ''null'' cs then Inr (PNone, False, drop 4 cs)
      else if prefix ''true'' cs then Inr (PBool True, False, drop 4 cs)
      else if prefix ''false'' cs then Inr (PBool False, False, drop 5 cs)
      else if prefix ''NaN'' cs then Inr (PNone, True, drop 3 cs)
      else if prefix ''Infinity'' cs then Inr (PNone, True, drop 8 cs)
      else if prefix ''-Infinity'' cs then Inr (PNone, True, drop 9 cs)
      else
        (case match_number cs of
           None \<Rightarrow> Inl (DecodeErr ''Expecting value'' (length cs))
         | Some (ds, is_float, r) \<Rightarrow>
             if is_float then Inr (PNone, True, r)
             else Inr (PInt (if hd ds = CHR ''-'' then - int (digits_value (tl ds))
                             else int (digits_value ds)), False, r)))"
| "scan_array 0 cs acc fl = Inl (DecodeErr ''Expecting value'' (length cs))"
| "scan_array (Suc n) cs acc fl =
     (case scan_once n cs of
        Inl err \<Rightarrow> Inl err
      | Inr (v, f, r) \<Rightarrow>
          (let r = skip_ws r
           in if r \<noteq> [] \<and> hd r = CHR '']'' then Inr (PList (acc @ [v]), fl \<or> f, tl r)
              else if r = [] \<or> hd r \<noteq> CHR '','' then
                Inl (DecodeErr ''Expecting ',' delimiter'' (length r))
              else scan_array n (skip_ws (tl r)) (acc @ [v]) (fl \<or> f)))"
| "scan_object 0 cs acc fl = Inl (DecodeErr ''Expecting value'' (length cs))"
| "scan_object (Suc n) cs acc fl =
     (if cs = [] \<or> hd cs \<noteq> CHR 0x22 then
        Inl (DecodeErr ''Expecting property name enclosed in double quotes'' (length cs))
      else
        (case scanstring (length cs) (tl cs) of
           Inl err \<Rightarrow> Inl err
         | Inr (k, r) \<Rightarrow>
             (let r = skip_ws r
              in if r = [] \<or> hd r \<noteq> CHR '':'' then
                   Inl (DecodeErr ''Expecting ':' delimiter'' (length r))
                 else
                   (case scan_once n (skip_ws (tl r)) of
                      Inl err \<Rightarrow> Inl err
                    | Inr (v, f, r) \<Rightarrow>
                        (let r = skip_ws r
                         in if r \<noteq> [] \<and> hd r = CHR ''}'' then
                              Inr (PDict (AList.update k v acc), fl \<or> f, tl r)
                            else if r = [] \<or> hd r \<noteq> CHR '','' then
                              Inl (DecodeErr ''Expecting ',' delimiter'' (length r))
                            else
                              scan_object n (skip_ws (tl r)) (AList.update k v acc) (fl \<or> f))))))"

text \<open>The text of a \<open>JSONDecodeError\<close>: the message, then the line, the column and the
  index of the character where \<open>n\<close> bytes remain, all counted in characters.\<close>

definition decode_error_text :: "string \<Rightarrow> string \<Rightarrow> nat \<Rightarrow> string" where
  "decode_error_text doc msg n =
     (let seen = take (length doc - n) doc;
          line = rev (takeWhile (\<lambda>c. c \<noteq> CHR 0x0A) (rev seen))
      in msg @ '': line '' @ nat_digits (Suc (length (filter (\<lambda>c. c = CHR 0x0A) seen))) @
         '' column '' @ nat_digits (Suc (cp_count line)) @
         '' (char '' @ nat_digits (cp_count seen) @ '')'')"

definition json_loads_lite :: "string \<Rightarrow> string + pyval" where
  "json_loads_lite doc =
     (if prefix [CHR 0xEF, CHR 0xBB, CHR 0xBF] doc then
        Inl (decode_error_text doc ''Unexpected UTF-8 BOM (decode using utf-8-sig)'' (length doc))
      else
        (case scan_once (2 * length doc + 2) (skip_ws doc) of
           Inl (DecodeErr msg n) \<Rightarrow> Inl (decode_error_text doc msg n)
         | Inr (v, has_float, r) \<Rightarrow>
             if skip_ws r \<noteq> [] then Inl (decode_error_text doc ''Extra data'' (length (skip_ws r)))
             else if has_float then Inl ''float''
             else Inr v))"

text \<open>A world with the default configuration in which the network answers every request
  with the given outcome, and \<open>json.loads\<close> returns the value or raises the
  \<open>JSONDecodeError\<close> that \<open>json_loads_lite\<close> gives. It stands for Python on every
  text but those with a float, set apart above.\<close>

definition world_answering :: "http_outcome \<Rightarrow> world" where
  "world_answering out =
     \<lparr>PROXYPIN_HOST = ''127.0.0.1'', PROXYPIN_PORT = 17777,
      json_loads = (\<lambda>t. case json_loads_lite t of Inl m \<Rightarrow> Inl (JSONDecodeError m) | Inr v \<Rightarrow> Inr v),
      remote = (\<lambda>request. out)\<rparr>"

text \<open>A response with status 200 and the given decoded body.\<close>

definition ok_response :: "pyval \<Rightarrow> http_outcome" where
  "ok_response body = Response 200 ''OK'' ''http://127.0.0.1:17777/messages'' (Inr body)"

section \<open>What a call does to the state\<close>

lemma call_proxypin_tool_state:
  "snd (call_proxypin_tool w tool_name arguments s) =
     s\<lparr>request_id_counter := request_id_counter s + 1,
       wire := wire s @
         [\<lparr>post_url = MESSAGES_URL w,
           post_json = \<lparr>p_jsonrpc = ''2.0'', p_id = request_id_counter s, p_method = ''tools/call'',
                        p_params = \<lparr>p_name = tool_name,
                                     p_arguments = (case arguments of None \<Rightarrow> [] | Some a \<Rightarrow> a)\<rparr>\<rparr>,
           post_timeout = 30, post_session = session\<rparr>]\<rparr>"
  by (simp add: call_proxypin_tool_def Let_def)

lemma call_proxypin_tool_result:
  "fst (call_proxypin_tool w tool_name arguments s) =
     handle_outcome (json_loads w)
       (remote w (last (wire (snd (call_proxypin_tool w tool_name arguments s)))))"
  by (simp add: call_proxypin_tool_def Let_def)

lemmas tool_defs =
  search_requests_def get_request_details_def replay_request_def generate_code_def get_curl_def
  block_url_def add_response_rewrite_def add_request_rewrite_def update_script_def
  get_scripts_def set_config_def add_host_mapping_def get_proxy_status_def export_har_def
  import_har_def start_proxy_def stop_proxy_def get_recent_requests_def clear_requests_def
  get_statistics_def compare_requests_def find_similar_requests_def extract_api_endpoints_def

lemma invoke_is_call:
  "\<exists>tool_name arguments. \<forall>s. invoke w c s = call_proxypin_tool w tool_name arguments s"
  by (cases c) (simp_all add: tool_defs Let_def, blast+)

lemma invoke_step:
  "\<exists>r. post_session r = session \<and> p_id (post_json r) = request_id_counter s \<and>
     snd (invoke w c s) = s\<lparr>request_id_counter := request_id_counter s + 1, wire := wire s @ [r]\<rparr>"
proof -
  obtain n a where "invoke w c s = call_proxypin_tool w n a s"
    using invoke_is_call by blast
  then show ?thesis
    by (intro exI[of _ "last (wire (snd (invoke w c s)))"]) (simp add: call_proxypin_tool_state)
qed

lemma run_calls_ids:
  "map (p_id \<circ> post_json) (wire (run_calls w cs s)) =
     map (p_id \<circ> post_json) (wire s) @ map (\<lambda>i. request_id_counter s + int i) [0..<length cs]"
proof (induction cs arbitrary: s)
  case Nil
  show ?case by simp
next
  case (Cons c cs)
  obtain r where r: "p_id (post_json r) = request_id_counter s"
    "snd (invoke w c s) = s\<lparr>request_id_counter := request_id_counter s + 1, wire := wire s @ [r]\<rparr>"
    using invoke_step by blast
  have shift: "map (\<lambda>i. request_id_counter s + int i) [0..<Suc (length cs)] =
      request_id_counter s # map (\<lambda>i. request_id_counter s + 1 + int i) [0..<length cs]"
    by (simp add: upt_conv_Cons map_Suc_upt[symmetric] del: upt_Suc) 
  show ?case
    using Cons.IH[of "snd (invoke w c s)"] r shift by simp
qed

lemma run_calls_sessions:
  "map post_session (wire (run_calls w cs s)) =
     map post_session (wire s) @ replicate (length cs) session"
proof (induction cs arbitrary: s)
  case Nil
  show ?case by simp
next
  case (Cons c cs)
  obtain r where r: "post_session r = session"
    "snd (invoke w c s) = s\<lparr>request_id_counter := request_id_counter s + 1, wire := wire s @ [r]\<rparr>"
    using invoke_step by blast
  show ?case
    using Cons.IH[of "snd (invoke w c s)"] r by (simp add: replicate_app_Cons_same)
qed

text \<open>
  Claim C2. In a process that starts with the counter at 1, the request sent by the n-th call
  carries the id n, whatever tools are called with whatever arguments and whatever the
  remote service or the network answer (so also after calls that failed): the ids on the
  wire are 1, 2, ..., one per call, without repetition.
\<close>

theorem request_ids_count_from_one:
  "map (p_id \<circ> post_json) (wire (run_calls w cs initial_state)) = map int [1..<Suc (length cs)]"
proof -
  have "map (\<lambda>i. 1 + int i) [0..<length cs] = map int [1..<Suc (length cs)]"
    by (simp add: map_Suc_upt[symmetric] del: upt_Suc)
  then show ?thesis
    using run_calls_ids[of w cs initial_state] by (simp add: initial_state_def)
qed

text \<open>
  Claim C8. \<open>search_requests()\<close> with no argument sends an argument mapping whose only
  key is \<open>limit\<close>, with the value 20.
\<close>

theorem search_requests_no_arguments:
  "sent_arguments w (SearchRequests no_kwargs) s = [(''limit'', PInt 20)]"
  by (simp add: sent_arguments_def search_requests_def call_proxypin_tool_state
      search_requests_args_def no_kwargs_def passed_or_def set_if_def)

text \<open>
  Claim C9. Every request of every tool is posted through the one session whose
  \<open>trust_env\<close> is off, so none of them is routed through a proxy taken from the ambient
  configuration, whatever that configuration holds.
\<close>

theorem no_ambient_proxy:
  "map (\<lambda>r. trust_env (post_session r)) (wire (run_calls w cs initial_state)) =
     replicate (length cs) False \<and>
   map (\<lambda>r. proxies_used (post_session r) ambient) (wire (run_calls w cs initial_state)) =
     replicate (length cs) []"
proof -
  let ?W = "wire (run_calls w cs initial_state)"
  have sessions: "map post_session ?W = replicate (length cs) session"
    using run_calls_sessions[of w cs initial_state] by (simp add: initial_state_def)
  have "map (\<lambda>r. trust_env (post_session r)) ?W = map trust_env (map post_session ?W)"
    by (simp add: comp_def)
  then have env: "map (\<lambda>r. trust_env (post_session r)) ?W = replicate (length cs) False"
    by (simp only: sessions map_replicate) (simp add: session_def Session_def)
  have "map (\<lambda>r. proxies_used (post_session r) ambient) ?W =
      map (\<lambda>x. proxies_used x ambient) (map post_session ?W)"
    by (simp add: comp_def)
  then have "map (\<lambda>r. proxies_used (post_session r) ambient) ?W = replicate (length cs) []"
    by (simp only: sessions map_replicate) (simp add: proxies_used_def session_def Session_def)
  with env show ?thesis by simp
qed

section \<open>Unwrapping the response\<close>

lemma call_result_2xx:
  assumes "remote w (last (wire (snd (call_proxypin_tool w tool_name arguments s)))) =
             Response status reason url (Inr result)"
    and "200 \<le> status" and "status < 300"
  shows "fst (call_proxypin_tool w tool_name arguments s) = unwrap_result (json_loads w) result"
  using assms by (simp add: call_proxypin_tool_result handle_outcome_def raise_for_status_def)

lemma unwrap_result_content:
  assumes "''error'' \<notin> fst ` set body"
    and "map_of body ''result'' = Some (PDict res)"
    and "map_of res ''content'' = Some (PList content)"
  shows "unwrap_result loads (PDict body) =
           (case content of
              [] \<Rightarrow> Inr (PDict [])
            | first # rest \<Rightarrow> and_then (py_get first ''text'' (PStr ''{}'')) (loads_value loads))"
  using assms by (simp add: unwrap_result_def and_then_def split: list.splits)

lemma unwrap_result_error:
  assumes "map_of body ''error'' = Some err"
  shows "unwrap_result loads (PDict body) = Inl (PyException (''MCP Error: '' @ py_str err))"
proof -
  have "''error'' \<in> fst ` set body"
    using assms by (metis domI dom_map_of_conv_image_fst)
  then show ?thesis
    using assms by (simp add: unwrap_result_def and_then_def)
qed

lemma loads_lite_a1: "json_loads_lite ''{\"a\":1}'' = Inr (PDict [(''a'', PInt 1)])"
  by code_simp

lemma loads_lite_empty: "json_loads_lite ''{}'' = Inr (PDict [])"
  by code_simp



text \<open>
  Claim C1. When the posted request is answered with a 2xx status and a body that is an
  object without an \<open>error\<close> key whose \<open>result.content\<close> is a list, the call returns
  an empty object if that list is empty, and otherwise the value that \<open>json.loads\<close>
  gives for the \<open>text\<close> of the first element. The witness runs the two responses of the
  specification: the text \<open>{"a":1}\<close> gives exactly the object with the one key \<open>a\<close>
  and the value 1, and an empty content gives the empty object.
\<close>

theorem unwrap_successful_response:
  assumes "remote w (last (wire (snd (call_proxypin_tool w tool_name arguments s)))) =
             Response status reason url (Inr (PDict body))"
    and "200 \<le> status" and "status < 300"
    and "''error'' \<notin> fst ` set body"
    and "map_of body ''result'' = Some (PDict res)"
    and "map_of res ''content'' = Some (PList content)"
  shows "(content = [] \<longrightarrow> fst (call_proxypin_tool w tool_name arguments s) = Inr (PDict [])) \<and>
         (\<forall>first rest t v.
            content = PDict first # rest \<and> map_of first ''text'' = Some (PStr t) \<and>
            json_loads w t = Inr v \<longrightarrow>
            fst (call_proxypin_tool w tool_name arguments s) = Inr v)"
proof -
  have "fst (call_proxypin_tool w tool_name arguments s) =
      (case content of
         [] \<Rightarrow> Inr (PDict [])
       | first # rest \<Rightarrow> and_then (py_get first ''text'' (PStr ''{}'')) (loads_value (json_loads w)))"
    using call_result_2xx[OF assms(1-3)] unwrap_result_content[OF assms(4-6)] by simp
  then show ?thesis
    by (auto simp: and_then_def)
qed

theorem unwrap_successful_response_witness:
  "fst (call_proxypin_tool
          (world_answering (ok_response
             (PDict [(''result'', PDict [(''content'', PList [PDict [(''text'', PStr ''{\"a\":1}'')]])])])))
          ''get_statistics'' None initial_state) = Inr (PDict [(''a'', PInt 1)]) \<and>
   fst (call_proxypin_tool
          (world_answering (ok_response (PDict [(''result'', PDict [(''content'', PList [])])])))
          ''get_statistics'' None initial_state) = Inr (PDict [])"
proof -
  let ?b1 = "[(''result'', PDict [(''content'', PList [PDict [(''text'', PStr ''{\"a\":1}'')]])])]"
  let ?b2 = "[(''result'', PDict [(''content'', PList [])])]"
  let ?w1 = "world_answering (ok_response (PDict ?b1))"
  let ?w2 = "world_answering (ok_response (PDict ?b2))"
  have r1: "remote ?w1 (last (wire (snd (call_proxypin_tool ?w1 ''get_statistics'' None initial_state)))) =
      Response 200 ''OK'' ''http://127.0.0.1:17777/messages'' (Inr (PDict ?b1))"
    by (simp add: world_answering_def ok_response_def)
  have r2: "remote ?w2 (last (wire (snd (call_proxypin_tool ?w2 ''get_statistics'' None initial_state)))) =
      Response 200 ''OK'' ''http://127.0.0.1:17777/messages'' (Inr (PDict ?b2))"
    by (simp add: world_answering_def ok_response_def)
  have l1: "json_loads ?w1 ''{\"a\":1}'' = Inr (PDict [(''a'', PInt 1)])"
    by (simp add: world_answering_def loads_lite_a1)
  have "fst (call_proxypin_tool ?w1 ''get_statistics'' None initial_state) = Inr (PDict [(''a'', PInt 1)])"
    using unwrap_successful_response[OF r1, of "[(''content'', PList [PDict [(''text'', PStr ''{\"a\":1}'')]])]"
        "[PDict [(''text'', PStr ''{\"a\":1}'')]]"] l1
    by simp
  moreover have "fst (call_proxypin_tool ?w2 ''get_statistics'' None initial_state) = Inr (PDict [])"
    using unwrap_successful_response[OF r2, of "[(''content'', PList [])]" "[]"]
    by simp
  ultimately show ?thesis by simp
qed

text \<open>
  Claim C10. When the first element of \<open>result.content\<close> is an object without a
  \<open>text\<close> key, the call does not fail on the missing key: the string \<open>{}\<close> is decoded
  in place of the missing text, so the call gives what \<open>json.loads\<close> gives for \<open>{}\<close>,
  which is the empty object.
\<close>

theorem missing_text_gives_empty_object:
  assumes "remote w (last (wire (snd (call_proxypin_tool w tool_name arguments s)))) =
             Response status reason url (Inr (PDict body))"
    and "200 \<le> status" and "status < 300"
    and "''error'' \<notin> fst ` set body"
    and "map_of body ''result'' = Some (PDict res)"
    and "map_of res ''content'' = Some (PList (PDict first # rest))"
    and "''text'' \<notin> fst ` set first"
  shows "fst (call_proxypin_tool w tool_name arguments s) = loads_value (json_loads w) (PStr ''{}'') \<and>
         (json_loads w ''{}'' = Inr (PDict []) \<longrightarrow>
            fst (call_proxypin_tool w tool_name arguments s) = Inr (PDict []))"
proof -
  have "map_of first ''text'' = None"
    using assms(7) by (simp add: map_of_eq_None_iff)
  then have "fst (call_proxypin_tool w tool_name arguments s) =
      loads_value (json_loads w) (PStr ''{}'')"
    using call_result_2xx[OF assms(1-3)] unwrap_result_content[OF assms(4-6)]
    by (simp add: and_then_def)
  then show ?thesis
    by simp
qed

theorem missing_text_gives_empty_object_witness:
  "fst (call_proxypin_tool
          (world_answering (ok_response
             (PDict [(''result'', PDict [(''content'', PList [PDict [(''type'', PStr ''text'')]])])])))
          ''get_scripts'' None initial_state) = Inr (PDict [])"
proof -
  let ?b = "[(''result'', PDict [(''content'', PList [PDict [(''type'', PStr ''text'')]])])]"
  let ?w = "world_answering (ok_response (PDict ?b))"
  have r: "remote ?w (last (wire (snd (call_proxypin_tool ?w ''get_scripts'' None initial_state)))) =
      Response 200 ''OK'' ''http://127.0.0.1:17777/messages'' (Inr (PDict ?b))"
    by (simp add: world_answering_def ok_response_def)
  have l: "json_loads ?w ''{}'' = Inr (PDict [])"
    by (simp add: world_answering_def loads_lite_empty)
  show ?thesis
    using missing_text_gives_empty_object[OF r, of "[(''content'', PList [PDict [(''type'', PStr ''text'')]])]"
        "[(''type'', PStr ''text'')]" "[]"] l
    by simp
qed




section \<open>Failures\<close>

lemma sublist_trans: "sublist xs ys \<Longrightarrow> sublist ys zs \<Longrightarrow> sublist xs zs"
  by (rule sublist_order.order.trans)

lemma join_comma_sublist: "x \<in> set xs \<Longrightarrow> sublist x (join_comma xs)"
proof (induction xs rule: join_comma.induct)
  case 1
  then show ?case by simp
next
  case (2 y)
  then show ?case by simp
next
  case (3 y z zs)
  show ?case
  proof (cases "x = y")
    case True
    then show ?thesis by simp
  next
    case False
    with 3 have "sublist x (join_comma (z # zs))" by simp
    moreover have "sublist (join_comma (z # zs)) ((y @ '', '') @ join_comma (z # zs))"
      by (rule sublist_append_leftI)
    ultimately show ?thesis
      using sublist_trans by fastforce
  qed
qed

lemma repr_dict_value_sublist:
  assumes "(k, v) \<in> set kvs"
  shows "sublist (py_repr v) (py_repr (PDict kvs))"
proof -
  let ?entry = "\<lambda>kv. py_repr_str (fst kv) @ '': '' @ py_repr (snd kv)"
  have "sublist (py_repr v) (?entry (k, v))"
    using sublist_append_leftI[of "py_repr v" "py_repr_str k @ '': ''"] by simp
  moreover have "sublist (?entry (k, v)) (join_comma (map ?entry kvs))"
    using assms by (intro join_comma_sublist) force
  moreover have "sublist (join_comma (map ?entry kvs)) (py_repr (PDict kvs))"
    using sublist_appendI[of "join_comma (map ?entry kvs)" "''{''" "''}''"] by simp
  ultimately show ?thesis
    using sublist_trans by blast
qed

lemma concat_utf8_chars: "concat (utf8_chars m) = m"
  by (induction m rule: utf8_chars.induct) simp_all

lemma utf8_chars_subset:
  assumes "g \<in> set (utf8_chars m)"
  shows "set g \<subseteq> set m"
proof -
  have "set g \<subseteq> set (concat (utf8_chars m))"
    using assms by auto
  then show ?thesis
    by (simp add: concat_utf8_chars)
qed

lemma repr_char_plain:
  assumes "isprintable (code_point g)" and "g \<noteq> [CHR 0x5C]" and "g \<noteq> [q]"
  shows "repr_char q g = g"
proof -
  have "g \<noteq> [CHR 0x09]" "g \<noteq> [CHR 0x0A]" "g \<noteq> [CHR 0x0D]"
    using assms(1) by (auto simp: code_point_def isprintable_def)
  then show ?thesis
    using assms by (simp add: repr_char_def Let_def)
qed

lemma repr_quote_not_in_plain: "plain_text m \<Longrightarrow> repr_quote m \<notin> set m"
  by (auto simp: plain_text_def repr_quote_def)

lemma py_repr_str_plain:
  assumes "plain_text m"
  shows "py_repr_str m = repr_quote m # m @ [repr_quote m]"
proof -
  have "repr_char (repr_quote m) g = g" if g: "g \<in> set (utf8_chars m)" for g
  proof -
    have "g \<noteq> [repr_quote m]"
      using utf8_chars_subset[OF g] repr_quote_not_in_plain[OF assms] by auto
    moreover have "isprintable (code_point g)" "g \<noteq> [CHR 0x5C]"
      using assms g by (auto simp: plain_text_def list_all_iff)
    ultimately show ?thesis
      by (simp add: repr_char_plain)
  qed
  then have "map (repr_char (repr_quote m)) (utf8_chars m) = utf8_chars m"
    by (simp add: map_idI)
  then show ?thesis
    by (simp add: py_repr_str_def Let_def concat_utf8_chars)
qed

lemma plain_text_in_repr: "plain_text m \<Longrightarrow> sublist m (py_repr (PStr m))"
  using sublist_appendI[of m "[repr_quote m]" "[repr_quote m]"] by (simp add: py_repr_str_plain)

lemmas repr_defs =
  py_repr_str_def repr_quote_def repr_char_def code_point_def isprintable_def is_continuation_def
  py_str_int_def nat_digits.simps digit_char_def hex_char_def hex_fixed_def Let_def

lemmas transport_defs =
  call_proxypin_tool_result world_answering_def ok_response_def handle_outcome_def
  raise_for_status_def unwrap_result_def and_then_def

text \<open>
  The message of a remote error is built with \<open>str\<close> of the decoded \<open>error\<close> value,
  so a string inside it appears as \<open>repr\<close> writes it, with every character that is not
  printable, a backslash or the delimiting quote escaped. For the error object with the code
  -32000 and the two-line message \<open>tool failed\<close>, \<open>see log\<close>, the exception text has a
  backslash and the letter n where the message has its line break: the remote message is
  not contained in it.
\<close>

theorem remote_error_message_counterexample:
  "fst (call_proxypin_tool
          (world_answering (ok_response
             (PDict [(''error'', PDict [(''code'', PInt (- 32000)),
                        (''message'', PStr (''tool failed'' @ [CHR 0x0A] @ ''see log''))])])))
          ''get_statistics'' None initial_state) =
     Inl (PyException
       (''MCP Error: {'code': -32000, 'message': 'tool failed'' @ [CHR 0x5C] @ ''nsee log'}'')) \<and>
   \<not> sublist (''tool failed'' @ [CHR 0x0A] @ ''see log'')
       (''MCP Error: {'code': -32000, 'message': 'tool failed'' @ [CHR 0x5C] @ ''nsee log'}'')"
  by (simp add: transport_defs repr_defs sublist_Cons_right)

text \<open>
  Claim C5. When the posted request is answered with a 2xx status and a body that is an
  object with an \<open>error\<close> key, the call fails with the builtin \<open>Exception\<close> (the class
  that transport failures are raised with too; only the text tells them apart) whose text
  is \<open>MCP Error: \<close> followed by \<open>str\<close> of the error value. When that value is an
  object with an integer \<open>code\<close> and a \<open>message\<close> of plain text (printable
  characters, no backslash, not both kinds of quote), the exception text contains the code
  in decimal and the message. The witness is the error of the
  specification, code -32601 and message \<open>method not found\<close>.
\<close>

theorem remote_error_raises_exception:
  assumes "remote w (last (wire (snd (call_proxypin_tool w tool_name arguments s)))) =
             Response status reason url (Inr (PDict body))"
    and "200 \<le> status" and "status < 300"
    and "map_of body ''error'' = Some err"
  shows "fst (call_proxypin_tool w tool_name arguments s) =
           Inl (PyException (''MCP Error: '' @ py_str err)) \<and>
         (\<forall>e c m. err = PDict e \<and> map_of e ''code'' = Some (PInt c) \<and>
                  map_of e ''message'' = Some (PStr m) \<and> plain_text m \<longrightarrow>
            sublist (py_str_int c) (''MCP Error: '' @ py_str err) \<and>
            sublist m (''MCP Error: '' @ py_str err))"
proof -
  have res: "fst (call_proxypin_tool w tool_name arguments s) =
      Inl (PyException (''MCP Error: '' @ py_str err))"
    using call_result_2xx[OF assms(1-3)] unwrap_result_error[OF assms(4)] by simp
  have "sublist (py_str_int c) (''MCP Error: '' @ py_repr (PDict e)) \<and>
        sublist m (''MCP Error: '' @ py_repr (PDict e))"
    if code: "map_of e ''code'' = Some (PInt c)" and msg: "map_of e ''message'' = Some (PStr m)"
      and plain: "plain_text m" for e c m
  proof -
    have "sublist (py_repr (PInt c)) (py_repr (PDict e))"
      using code by (intro repr_dict_value_sublist map_of_SomeD)
    then have 1: "sublist (py_str_int c) (py_repr (PDict e))"
      by simp
    have "sublist (py_repr (PStr m)) (py_repr (PDict e))"
      using msg by (intro repr_dict_value_sublist map_of_SomeD)
    then have 2: "sublist m (py_repr (PDict e))"
      using plain_text_in_repr[OF plain] sublist_trans by blast
    have 3: "sublist (py_repr (PDict e)) (''MCP Error: '' @ py_repr (PDict e))"
      by (rule sublist_append_leftI)
    show ?thesis
      using 1 2 3 sublist_trans by blast
  qed
  with res show ?thesis
    by auto
qed

lemma str_int_example: "py_str_int (- 32601) = ''-32601''"
  by (simp add: repr_defs)

lemma str_error_example:
  "py_str (PDict [(''code'', PInt (- 32601)), (''message'', PStr ''method not found'')]) =
     ''{'code': -32601, 'message': 'method not found'}''"
  by (simp add: repr_defs)

lemma plain_text_example: "plain_text ''method not found''"
  by (simp add: plain_text_def code_point_def isprintable_def is_continuation_def)

theorem remote_error_raises_exception_witness:
  "fst (call_proxypin_tool
          (world_answering (ok_response
             (PDict [(''error'', PDict [(''code'', PInt (- 32601)),
                                        (''message'', PStr ''method not found'')])])))
          ''get_statistics'' None initial_state) =
     Inl (PyException ''MCP Error: {'code': -32601, 'message': 'method not found'}'') \<and>
   sublist ''-32601'' ''MCP Error: {'code': -32601, 'message': 'method not found'}'' \<and>
   sublist ''method not found'' ''MCP Error: {'code': -32601, 'message': 'method not found'}''"
proof -
  let ?err = "PDict [(''code'', PInt (- 32601)), (''message'', PStr ''method not found'')]"
  let ?w = "world_answering (ok_response (PDict [(''error'', ?err)]))"
  have r: "remote ?w (last (wire (snd (call_proxypin_tool ?w ''get_statistics'' None initial_state)))) =
      Response 200 ''OK'' ''http://127.0.0.1:17777/messages'' (Inr (PDict [(''error'', ?err)]))"
    by (simp add: world_answering_def ok_response_def)
  have e: "map_of [(''error'', ?err)] ''error'' = Some ?err"
    by simp
  show ?thesis
    using remote_error_raises_exception[OF r _ _ e] plain_text_example
    by (simp add: str_error_example str_int_example del: py_str.simps py_repr.simps)
qed

text \<open>
  A response with status 500 and a refused connection end in the same exception class,
  the builtin \<open>Exception\<close>, with the same prefix; the text for the status 500 has the
  status, the reason and the URL, and nothing of the body.
\<close>

theorem transport_failures_same_class_counterexample:
  "fst (call_proxypin_tool
          (world_answering (Response 500 ''Internal Server Error'' ''http://127.0.0.1:17777/messages''
             (Inr (PDict [(''detail'', PStr ''database is locked'')]))))
          ''get_statistics'' None initial_state) =
     Inl (PyException (connect_failed_prefix @
            ''500 Server Error: Internal Server Error for url: http://127.0.0.1:17777/messages'')) \<and>
   fst (call_proxypin_tool
          (world_answering (RequestException
             (''HTTPConnectionPool(host='127.0.0.1', port=17777): Max retries exceeded with url: '' @
              ''/messages (Caused by NewConnectionError(\"HTTPConnection(host='127.0.0.1', '' @
              ''port=17777): Failed to establish a new connection: [Errno 111] Connection refused\"))'')))
          ''get_statistics'' None initial_state) =
     Inl (PyException (connect_failed_prefix @
            ''HTTPConnectionPool(host='127.0.0.1', port=17777): Max retries exceeded with url: '' @
            ''/messages (Caused by NewConnectionError(\"HTTPConnection(host='127.0.0.1', '' @
            ''port=17777): Failed to establish a new connection: [Errno 111] Connection refused\"))''))"
  by (simp add: transport_defs repr_defs)

text \<open>
  Claim C4. The call does not sort transport failures into classes of their own: a network
  failure and an HTTP status from 400 to 599 both fail with the builtin \<open>Exception\<close>. Its
  text is the fixed prefix followed by the whole text of the \<open>requests\<close> exception, so it
  names the configured host and port wherever that text does. For a network failure that
  is the text \<open>requests\<close> reports (for a refused connection, a failed name lookup or a
  timeout it starts with the connection pool, its host and its port). For an error status
  it is the status code, \<open>Client Error\<close> or \<open>Server Error\<close>, the reason phrase and the
  URL of the response, which names host and port when it is the URL the request was
  posted to; the body is not part of it.
\<close>

theorem transport_failures_raise_exception:
  "(\<forall>e. remote w (last (wire (snd (call_proxypin_tool w tool_name arguments s)))) = RequestException e \<longrightarrow>
      fst (call_proxypin_tool w tool_name arguments s) =
        Inl (PyException (connect_failed_prefix @ e)) \<and>
      (sublist (PROXYPIN_HOST w) e \<and> sublist (py_str_int (PROXYPIN_PORT w)) e \<longrightarrow>
         sublist (PROXYPIN_HOST w) (connect_failed_prefix @ e) \<and>
         sublist (py_str_int (PROXYPIN_PORT w)) (connect_failed_prefix @ e))) \<and>
   (\<forall>status reason url body.
      remote w (last (wire (snd (call_proxypin_tool w tool_name arguments s)))) =
        Response status reason url body \<and> 400 \<le> status \<and> status < 600 \<longrightarrow>
      (let cause = py_str_int status @
                  (if status < 500 then '' Client Error: '' else '' Server Error: '') @
                  reason @ '' for url: '' @ url
       in fst (call_proxypin_tool w tool_name arguments s) =
            Inl (PyException (connect_failed_prefix @ cause)) \<and>
          sublist (py_str_int status) (connect_failed_prefix @ cause) \<and>
          (url = MESSAGES_URL w \<longrightarrow>
             sublist (PROXYPIN_HOST w) (connect_failed_prefix @ cause) \<and>
             sublist (py_str_int (PROXYPIN_PORT w)) (connect_failed_prefix @ cause))))"
proof (intro conjI allI impI)
  fix e
  assume "remote w (last (wire (snd (call_proxypin_tool w tool_name arguments s)))) = RequestException e"
  then show "fst (call_proxypin_tool w tool_name arguments s) =
      Inl (PyException (connect_failed_prefix @ e))"
    by (simp add: call_proxypin_tool_result handle_outcome_def)
next
  fix e
  assume "sublist (PROXYPIN_HOST w) e \<and> sublist (py_str_int (PROXYPIN_PORT w)) e"
  then show "sublist (PROXYPIN_HOST w) (connect_failed_prefix @ e)"
    using sublist_trans[OF _ sublist_append_leftI[of e connect_failed_prefix]] by blast
next
  fix e
  assume "sublist (PROXYPIN_HOST w) e \<and> sublist (py_str_int (PROXYPIN_PORT w)) e"
  then show "sublist (py_str_int (PROXYPIN_PORT w)) (connect_failed_prefix @ e)"
    using sublist_trans[OF _ sublist_append_leftI[of e connect_failed_prefix]] by blast
next
  fix status reason url body
  assume h: "remote w (last (wire (snd (call_proxypin_tool w tool_name arguments s)))) =
      Response status reason url body \<and> 400 \<le> status \<and> status < 600"
  let ?kind = "if status < 500 then '' Client Error: '' else '' Server Error: ''"
  let ?text = "py_str_int status @ ?kind @ reason @ '' for url: '' @ url"
  have res: "fst (call_proxypin_tool w tool_name arguments s) =
      Inl (PyException (connect_failed_prefix @ ?text))"
    using h by (auto simp: call_proxypin_tool_result handle_outcome_def raise_for_status_def)
  have st: "sublist (py_str_int status) (connect_failed_prefix @ ?text)"
    using sublist_appendI[of "py_str_int status" connect_failed_prefix "?kind @ reason @ '' for url: '' @ url"]
    by simp
  have in_url: "sublist x (connect_failed_prefix @ ?text)" if "sublist x url" for x
  proof -
    have "sublist url ((connect_failed_prefix @ py_str_int status @ ?kind @ reason @ '' for url: '') @ url)"
      by (rule sublist_append_leftI)
    then show ?thesis
      using that sublist_trans by fastforce
  qed
  have host: "sublist (PROXYPIN_HOST w) (MESSAGES_URL w)"
    using sublist_appendI[of "PROXYPIN_HOST w" "''http://''" "'':'' @ py_str_int (PROXYPIN_PORT w) @ ''/messages''"]
    by (simp add: MESSAGES_URL_def BASE_URL_def)
  have port: "sublist (py_str_int (PROXYPIN_PORT w)) (MESSAGES_URL w)"
    using sublist_appendI[of "py_str_int (PROXYPIN_PORT w)" "''http://'' @ PROXYPIN_HOST w @ '':''" "''/messages''"]
    by (simp add: MESSAGES_URL_def BASE_URL_def)
  show "let cause = py_str_int status @ ?kind @ reason @ '' for url: '' @ url
       in fst (call_proxypin_tool w tool_name arguments s) =
            Inl (PyException (connect_failed_prefix @ cause)) \<and>
          sublist (py_str_int status) (connect_failed_prefix @ cause) \<and>
          (url = MESSAGES_URL w \<longrightarrow>
             sublist (PROXYPIN_HOST w) (connect_failed_prefix @ cause) \<and>
             sublist (py_str_int (PROXYPIN_PORT w)) (connect_failed_prefix @ cause))"
    unfolding Let_def using res st in_url host port by blast
qed

lemma str_int_404: "py_str_int 404 = ''404''"
  by (simp add: repr_defs)

lemma str_int_17777: "py_str_int 17777 = ''17777''"
  by (simp add: repr_defs)

theorem transport_failures_raise_exception_witness:
  "fst (call_proxypin_tool
          (world_answering (RequestException
             ''HTTPConnectionPool(host='127.0.0.1', port=17777): Read timed out. (read timeout=30)''))
          ''get_statistics'' None initial_state) =
     Inl (PyException (connect_failed_prefix @
            ''HTTPConnectionPool(host='127.0.0.1', port=17777): Read timed out. (read timeout=30)'')) \<and>
   sublist ''127.0.0.1'' (connect_failed_prefix @
     ''HTTPConnectionPool(host='127.0.0.1', port=17777): Read timed out. (read timeout=30)'') \<and>
   sublist ''17777'' (connect_failed_prefix @
     ''HTTPConnectionPool(host='127.0.0.1', port=17777): Read timed out. (read timeout=30)'') \<and>
   fst (call_proxypin_tool
          (world_answering (Response 404 ''Not Found'' ''http://127.0.0.1:17777/messages'' (Inl ''Expecting value'')))
          ''get_statistics'' None initial_state) =
     Inl (PyException (connect_failed_prefix @
            ''404 Client Error: Not Found for url: http://127.0.0.1:17777/messages'')) \<and>
   sublist ''127.0.0.1'' (connect_failed_prefix @
     ''404 Client Error: Not Found for url: http://127.0.0.1:17777/messages'') \<and>
   sublist ''17777'' (connect_failed_prefix @
     ''404 Client Error: Not Found for url: http://127.0.0.1:17777/messages'')"
proof -
  let ?e = "''HTTPConnectionPool(host='127.0.0.1', port=17777): Read timed out. (read timeout=30)''"
  let ?w1 = "world_answering (RequestException ?e)"
  let ?w2 = "world_answering (Response 404 ''Not Found'' ''http://127.0.0.1:17777/messages'' (Inl ''Expecting value''))"
  have r1: "remote ?w1 (last (wire (snd (call_proxypin_tool ?w1 ''get_statistics'' None initial_state)))) =
      RequestException ?e"
    by (simp add: world_answering_def)
  have r2: "remote ?w2 (last (wire (snd (call_proxypin_tool ?w2 ''get_statistics'' None initial_state)))) =
      Response 404 ''Not Found'' ''http://127.0.0.1:17777/messages'' (Inl ''Expecting value'')"
    by (simp add: world_answering_def)
  have cfg1: "PROXYPIN_HOST ?w1 = ''127.0.0.1''" "py_str_int (PROXYPIN_PORT ?w1) = ''17777''"
    by (simp_all add: world_answering_def str_int_17777)
  have cfg2: "PROXYPIN_HOST ?w2 = ''127.0.0.1''" "py_str_int (PROXYPIN_PORT ?w2) = ''17777''"
    "MESSAGES_URL ?w2 = ''http://127.0.0.1:17777/messages''"
    by (simp_all add: world_answering_def str_int_17777 MESSAGES_URL_def BASE_URL_def)
  have named: "sublist ''127.0.0.1'' ?e" "sublist ''17777'' ?e"
    by (simp_all add: sublist_Cons_right)
  have 1: "fst (call_proxypin_tool ?w1 ''get_statistics'' None initial_state) =
        Inl (PyException (connect_failed_prefix @ ?e)) \<and>
      sublist ''127.0.0.1'' (connect_failed_prefix @ ?e) \<and>
      sublist ''17777'' (connect_failed_prefix @ ?e)"
    using transport_failures_raise_exception[of ?w1 "''get_statistics''" None initial_state]
      r1 named unfolding cfg1 by blast
  have 2: "fst (call_proxypin_tool ?w2 ''get_statistics'' None initial_state) =
        Inl (PyException (connect_failed_prefix @ py_str_int 404 @ '' Client Error: '' @ ''Not Found'' @
               '' for url: '' @ ''http://127.0.0.1:17777/messages'')) \<and>
      sublist ''127.0.0.1'' (connect_failed_prefix @ py_str_int 404 @ '' Client Error: '' @ ''Not Found'' @
               '' for url: '' @ ''http://127.0.0.1:17777/messages'') \<and>
      sublist ''17777'' (connect_failed_prefix @ py_str_int 404 @ '' Client Error: '' @ ''Not Found'' @
               '' for url: '' @ ''http://127.0.0.1:17777/messages'')"
    using transport_failures_raise_exception[of ?w2 "''get_statistics''" None initial_state]
      r2 unfolding cfg2 Let_def by force
  show ?thesis
    using 1 2 by (simp add: str_int_404)
qed

section \<open>The argument mapping\<close>

lemma map_of_set_if:
  "map_of (set_if c k v args) k' = (if c \<and> k' = k then Some v else map_of args k')"
  by (simp add: set_if_def update_conv')

lemma search_requests_args_lookup:
  "map_of (search_requests_args kw) k =
     (if passed_or PNone (sr_max_duration kw) \<noteq> PNone \<and> k = ''max_duration''
        then Some (passed_or PNone (sr_max_duration kw))
      else if passed_or PNone (sr_min_duration kw) \<noteq> PNone \<and> k = ''min_duration''
        then Some (passed_or PNone (sr_min_duration kw))
      else if truthy (passed_or PNone (sr_response_body_search kw)) \<and> k = ''response_body_search''
        then Some (passed_or PNone (sr_response_body_search kw))
      else if truthy (passed_or PNone (sr_request_body_search kw)) \<and> k = ''request_body_search''
        then Some (passed_or PNone (sr_request_body_search kw))
      else if truthy (passed_or PNone (sr_header_search kw)) \<and> k = ''header_search''
        then Some (passed_or PNone (sr_header_search kw))
      else if truthy (passed_or PNone (sr_domain kw)) \<and> k = ''domain''
        then Some (passed_or PNone (sr_domain kw))
      else if truthy (passed_or PNone (sr_status_code kw)) \<and> k = ''status_code''
        then Some (passed_or PNone (sr_status_code kw))
      else if truthy (passed_or PNone (sr_method kw)) \<and> k = ''method''
        then Some (passed_or PNone (sr_method kw))
      else if truthy (passed_or PNone (sr_query kw)) \<and> k = ''query''
        then Some (passed_or PNone (sr_query kw))
      else map_of [(''limit'', passed_or (PInt 20) (sr_limit kw))] k)"
  unfolding search_requests_args_def Let_def map_of_set_if
  by (rule refl)

lemma passes_unset:
  "(case a of None \<Rightarrow> None | Some v \<Rightarrow> if passes t v then Some v else None) =
     (if passes t (passed_or PNone a) then Some (passed_or PNone a) else None)"
  by (cases a; cases t) (simp_all add: passed_or_def)

lemma sent_search_requests:
  "sent_arguments w (SearchRequests kw) s = search_requests_args kw"
  by (simp add: sent_arguments_def search_requests_def call_proxypin_tool_state)

lemma sent_add_response_rewrite:
  "sent_arguments w (AddResponseRewrite url_pattern rewrite_type val key) s =
     set_if (truthy (passed_or PNone key)) ''key'' (passed_or PNone key)
       [(''url_pattern'', url_pattern), (''rewrite_type'', rewrite_type), (''value'', val)]"
  by (simp add: sent_arguments_def add_response_rewrite_def call_proxypin_tool_state Let_def)

lemma sent_set_config:
  "sent_arguments w (SetConfig system_proxy ssl_capture) s =
     set_if (passed_or PNone ssl_capture \<noteq> PNone) ''ssl_capture'' (passed_or PNone ssl_capture)
       (set_if (passed_or PNone system_proxy \<noteq> PNone) ''system_proxy''
          (passed_or PNone system_proxy) [])"
  by (simp add: sent_arguments_def set_config_def call_proxypin_tool_state Let_def)

lemma sent_get_recent_requests:
  "sent_arguments w (GetRecentRequests limit url_filter method) s =
     set_if (truthy (passed_or PNone method)) ''method'' (passed_or PNone method)
       (set_if (truthy (passed_or PNone url_filter)) ''url_filter'' (passed_or PNone url_filter)
          [(''limit'', passed_or (PInt 20) limit)])"
  by (simp add: sent_arguments_def get_recent_requests_def call_proxypin_tool_state Let_def)

lemma sent_extract_api_endpoints:
  "sent_arguments w (ExtractApiEndpoints domain_filter) s =
     set_if (truthy (passed_or PNone domain_filter)) ''domain_filter''
       (passed_or PNone domain_filter) []"
  by (simp add: sent_arguments_def extract_api_endpoints_def call_proxypin_tool_state Let_def)

lemma optional_search_requests:
  assumes "(k, t, a) \<in> set (optional_params (SearchRequests kw))"
  shows "map_of (search_requests_args kw) k =
           (if passes t (passed_or PNone a) then Some (passed_or PNone a) else None)"
proof -
  have "(k, t, a) = (''query'', Truthy, sr_query kw) \<or>
        (k, t, a) = (''method'', Truthy, sr_method kw) \<or>
        (k, t, a) = (''status_code'', Truthy, sr_status_code kw) \<or>
        (k, t, a) = (''domain'', Truthy, sr_domain kw) \<or>
        (k, t, a) = (''header_search'', Truthy, sr_header_search kw) \<or>
        (k, t, a) = (''request_body_search'', Truthy, sr_request_body_search kw) \<or>
        (k, t, a) = (''response_body_search'', Truthy, sr_response_body_search kw) \<or>
        (k, t, a) = (''min_duration'', NotNone, sr_min_duration kw) \<or>
        (k, t, a) = (''max_duration'', NotNone, sr_max_duration kw)"
    using assms unfolding optional_params.simps list.set insert_iff empty_iff
    by (simp only: simp_thms)
  then show ?thesis
    by (elim disjE) (simp_all add: search_requests_args_lookup)
qed

lemma optional_add_response_rewrite:
  assumes "(k, t, a) \<in> set (optional_params (AddResponseRewrite url_pattern rewrite_type val key))"
  shows "map_of (sent_arguments w (AddResponseRewrite url_pattern rewrite_type val key) s) k =
           (if passes t (passed_or PNone a) then Some (passed_or PNone a) else None)"
proof -
  have "(k, t, a) = (''key'', Truthy, key)"
    using assms unfolding optional_params.simps list.set insert_iff empty_iff
    by (simp only: simp_thms)
  then show ?thesis
    by (simp add: sent_add_response_rewrite map_of_set_if)
qed

lemma optional_set_config:
  assumes "(k, t, a) \<in> set (optional_params (SetConfig system_proxy ssl_capture))"
  shows "map_of (sent_arguments w (SetConfig system_proxy ssl_capture) s) k =
           (if passes t (passed_or PNone a) then Some (passed_or PNone a) else None)"
proof -
  have "(k, t, a) = (''system_proxy'', NotNone, system_proxy) \<or>
        (k, t, a) = (''ssl_capture'', NotNone, ssl_capture)"
    using assms unfolding optional_params.simps list.set insert_iff empty_iff
    by (simp only: simp_thms)
  then show ?thesis
    by (elim disjE) (simp_all add: sent_set_config map_of_set_if)
qed

lemma optional_get_recent_requests:
  assumes "(k, t, a) \<in> set (optional_params (GetRecentRequests limit url_filter method))"
  shows "map_of (sent_arguments w (GetRecentRequests limit url_filter method) s) k =
           (if passes t (passed_or PNone a) then Some (passed_or PNone a) else None)"
proof -
  have "(k, t, a) = (''url_filter'', Truthy, url_filter) \<or>
        (k, t, a) = (''method'', Truthy, method)"
    using assms unfolding optional_params.simps list.set insert_iff empty_iff
    by (simp only: simp_thms)
  then show ?thesis
    by (elim disjE) (simp_all add: sent_get_recent_requests map_of_set_if)
qed

lemma optional_extract_api_endpoints:
  assumes "(k, t, a) \<in> set (optional_params (ExtractApiEndpoints domain_filter))"
  shows "map_of (sent_arguments w (ExtractApiEndpoints domain_filter) s) k =
           (if passes t (passed_or PNone a) then Some (passed_or PNone a) else None)"
proof -
  have "(k, t, a) = (''domain_filter'', Truthy, domain_filter)"
    using assms unfolding optional_params.simps list.set insert_iff empty_iff
    by (simp only: simp_thms)
  then show ?thesis
    by (simp add: sent_extract_api_endpoints map_of_set_if)
qed

lemma optional_sent:
  assumes "(k, t, a) \<in> set (optional_params c)"
  shows "map_of (sent_arguments w c s) k =
           (case a of None \<Rightarrow> None | Some v \<Rightarrow> if passes t v then Some v else None)"
proof (cases c)
  case (SearchRequests kw)
  show ?thesis
    unfolding SearchRequests passes_unset sent_search_requests
    using assms[unfolded SearchRequests] by (rule optional_search_requests)
next
  case (AddResponseRewrite url_pattern rewrite_type val key)
  show ?thesis
    unfolding AddResponseRewrite passes_unset
    using assms[unfolded AddResponseRewrite] by (rule optional_add_response_rewrite)
next
  case (SetConfig system_proxy ssl_capture)
  show ?thesis
    unfolding SetConfig passes_unset
    using assms[unfolded SetConfig] by (rule optional_set_config)
next
  case (GetRecentRequests limit url_filter method_filter)
  show ?thesis
    unfolding GetRecentRequests passes_unset
    using assms[unfolded GetRecentRequests] by (rule optional_get_recent_requests)
next
  case (ExtractApiEndpoints domain_filter)
  show ?thesis
    unfolding ExtractApiEndpoints passes_unset
    using assms[unfolded ExtractApiEndpoints] by (rule optional_extract_api_endpoints)
qed (use assms in \<open>simp_all only: optional_params.simps list.set empty_iff\<close>)

lemma sent_generate_code:
  "sent_arguments w (GenerateCode request_id language) s =
     [(''request_id'', request_id), (''language'', passed_or (PStr ''python'') language)]"
  by (simp add: sent_arguments_def generate_code_def call_proxypin_tool_state Let_def)

lemma sent_block_url:
  "sent_arguments w (BlockUrl url_pattern block_type) s =
     [(''url_pattern'', url_pattern), (''block_type'', passed_or (PStr ''blockRequest'') block_type)]"
  by (simp add: sent_arguments_def block_url_def call_proxypin_tool_state Let_def)

lemma sent_export_har:
  "sent_arguments w (ExportHar limit) s = [(''limit'', passed_or (PInt 100) limit)]"
  by (simp add: sent_arguments_def export_har_def call_proxypin_tool_state Let_def)

lemma sent_start_proxy:
  "sent_arguments w (StartProxy port) s = [(''port'', passed_or (PInt 9099) port)]"
  by (simp add: sent_arguments_def start_proxy_def call_proxypin_tool_state Let_def)

lemma sent_find_similar_requests:
  "sent_arguments w (FindSimilarRequests request_id limit) s =
     [(''request_id'', request_id), (''limit'', passed_or (PInt 10) limit)]"
  by (simp add: sent_arguments_def find_similar_requests_def call_proxypin_tool_state Let_def)

lemma defaulted_sent:
  assumes "(k, d, a) \<in> set (defaulted_params c)"
  shows "map_of (sent_arguments w c s) k = Some (passed_or d a)"
proof (cases c)
  case (SearchRequests kw)
  have "(k, d, a) = (''limit'', PInt 20, sr_limit kw)"
    using assms unfolding SearchRequests defaulted_params.simps list.set insert_iff empty_iff
    by (simp only: simp_thms)
  then show ?thesis
    unfolding SearchRequests sent_search_requests by (simp add: search_requests_args_lookup)
next
  case (GenerateCode request_id language)
  have "(k, d, a) = (''language'', PStr ''python'', language)"
    using assms unfolding GenerateCode defaulted_params.simps list.set insert_iff empty_iff
    by (simp only: simp_thms)
  then show ?thesis
    unfolding GenerateCode sent_generate_code by simp
next
  case (BlockUrl url_pattern block_type)
  have "(k, d, a) = (''block_type'', PStr ''blockRequest'', block_type)"
    using assms unfolding BlockUrl defaulted_params.simps list.set insert_iff empty_iff
    by (simp only: simp_thms)
  then show ?thesis
    unfolding BlockUrl sent_block_url by simp
next
  case (ExportHar limit)
  have "(k, d, a) = (''limit'', PInt 100, limit)"
    using assms unfolding ExportHar defaulted_params.simps list.set insert_iff empty_iff
    by (simp only: simp_thms)
  then show ?thesis
    unfolding ExportHar sent_export_har by simp
next
  case (StartProxy port)
  have "(k, d, a) = (''port'', PInt 9099, port)"
    using assms unfolding StartProxy defaulted_params.simps list.set insert_iff empty_iff
    by (simp only: simp_thms)
  then show ?thesis
    unfolding StartProxy sent_start_proxy by simp
next
  case (GetRecentRequests limit url_filter method_filter)
  have "(k, d, a) = (''limit'', PInt 20, limit)"
    using assms unfolding GetRecentRequests defaulted_params.simps list.set insert_iff empty_iff
    by (simp only: simp_thms)
  then show ?thesis
    unfolding GetRecentRequests sent_get_recent_requests by (simp add: map_of_set_if)
next
  case (FindSimilarRequests request_id limit)
  have "(k, d, a) = (''limit'', PInt 10, limit)"
    using assms unfolding FindSimilarRequests defaulted_params.simps list.set insert_iff empty_iff
    by (simp only: simp_thms)
  then show ?thesis
    unfolding FindSimilarRequests sent_find_similar_requests by simp
qed (use assms in \<open>simp_all only: defaulted_params.simps list.set empty_iff\<close>)

text \<open>
  \<open>search_requests(query="")\<close> sends \<open>limit\<close> and nothing else. The key \<open>query\<close> is
  missing although the caller supplied a value, the empty string, which \<open>if query:\<close>
  treats as unset; the key \<open>limit\<close> is there although the caller left it unset, with
  the default 20 of the signature.
\<close>

theorem empty_query_omitted_counterexample:
  "sent_arguments (world_answering (RequestException ''refused''))
     (SearchRequests (no_kwargs\<lparr>sr_query := Some (PStr [])\<rparr>)) initial_state =
     [(''limit'', PInt 20)] \<and>
   map_of (sent_arguments (world_answering (RequestException ''refused''))
             (SearchRequests (no_kwargs\<lparr>sr_query := Some (PStr [])\<rparr>)) initial_state)
     ''query'' \<noteq> Some (PStr []) \<and>
   sr_limit (no_kwargs\<lparr>sr_query := Some (PStr [])\<rparr>) = None \<and>
   map_of (sent_arguments (world_answering (RequestException ''refused''))
             (SearchRequests (no_kwargs\<lparr>sr_query := Some (PStr [])\<rparr>)) initial_state)
     ''limit'' = Some (PInt 20)"
  by (simp add: sent_search_requests search_requests_args_def no_kwargs_def passed_or_def set_if_def)

text \<open>
  Claim C3. For every tool and every parameter it declares with a default. When the default
  is \<open>None\<close>, the key is sent with exactly the supplied value if that value passes the
  test the tool applies to the parameter, and is omitted otherwise; a call that does not
  pass the parameter, or passes \<open>None\<close>, never passes the test. The test is
  \<open>is not None\<close> for \<open>min_duration\<close>, \<open>max_duration\<close>, \<open>system_proxy\<close> and
  \<open>ssl_capture\<close>, so every other value is sent; it is truthiness for the string filters,
  so an empty string is omitted like \<open>None\<close>. When the default is a value (\<open>limit\<close>,
  \<open>language\<close>, \<open>block_type\<close>, \<open>port\<close>), the key is always sent: with exactly the
  supplied value when the caller passes one, with the default when the caller does not.
\<close>

theorem optional_parameter_inclusion:
  "((k, t, a) \<in> set (optional_params c) \<longrightarrow>
      map_of (sent_arguments w c s) k =
        (case a of None \<Rightarrow> None | Some v \<Rightarrow> if passes t v then Some v else None)) \<and>
   ((k', d, a') \<in> set (defaulted_params c) \<longrightarrow>
      map_of (sent_arguments w c s) k' = Some (case a' of None \<Rightarrow> d | Some v \<Rightarrow> v))"
proof (intro conjI impI)
  assume "(k, t, a) \<in> set (optional_params c)"
  then show "map_of (sent_arguments w c s) k =
      (case a of None \<Rightarrow> None | Some v \<Rightarrow> if passes t v then Some v else None)"
    by (rule optional_sent)
next
  assume "(k', d, a') \<in> set (defaulted_params c)"
  then have "map_of (sent_arguments w c s) k' = Some (passed_or d a')"
    by (rule defaulted_sent)
  then show "map_of (sent_arguments w c s) k' = Some (case a' of None \<Rightarrow> d | Some v \<Rightarrow> v)"
    by (simp only: passed_or_def)
qed

theorem optional_parameter_inclusion_witness:
  "map_of (sent_arguments (world_answering (RequestException ''refused''))
             (SearchRequests (no_kwargs\<lparr>sr_domain := Some (PStr ''example.com''),
                                          sr_limit := Some (PInt 5)\<rparr>)) initial_state)
     ''domain'' = Some (PStr ''example.com'') \<and>
   map_of (sent_arguments (world_answering (RequestException ''refused''))
             (SearchRequests (no_kwargs\<lparr>sr_domain := Some (PStr ''example.com''),
                                          sr_limit := Some (PInt 5)\<rparr>)) initial_state)
     ''query'' = None \<and>
   map_of (sent_arguments (world_answering (RequestException ''refused''))
             (SearchRequests (no_kwargs\<lparr>sr_domain := Some (PStr ''example.com''),
                                          sr_limit := Some (PInt 5)\<rparr>)) initial_state)
     ''limit'' = Some (PInt 5) \<and>
   map_of (sent_arguments (world_answering (RequestException ''refused''))
             (FindSimilarRequests (PStr ''42'') None) initial_state)
     ''limit'' = Some (PInt 10)"
proof -
  let ?w = "world_answering (RequestException ''refused'')"
  let ?c = "SearchRequests (no_kwargs\<lparr>sr_domain := Some (PStr ''example.com''),
                                        sr_limit := Some (PInt 5)\<rparr>)"
  let ?c2 = "FindSimilarRequests (PStr ''42'') None"
  have m1: "(''domain'', Truthy, Some (PStr ''example.com'')) \<in> set (optional_params ?c)"
    unfolding optional_params.simps list.set insert_iff by (simp add: no_kwargs_def)
  have m2: "(''query'', Truthy, None) \<in> set (optional_params ?c)"
    unfolding optional_params.simps list.set insert_iff by (simp add: no_kwargs_def)
  have m3: "(''limit'', PInt 20, Some (PInt 5)) \<in> set (defaulted_params ?c)"
    unfolding defaulted_params.simps list.set insert_iff by (simp add: no_kwargs_def)
  have m4: "(''limit'', PInt 10, None) \<in> set (defaulted_params ?c2)"
    unfolding defaulted_params.simps list.set insert_iff by simp
  have 1: "map_of (sent_arguments ?w ?c initial_state) ''domain'' = Some (PStr ''example.com'')"
    using optional_parameter_inclusion[of "''domain''" Truthy "Some (PStr ''example.com'')" ?c ?w
        initial_state] m1
    by simp
  have 2: "map_of (sent_arguments ?w ?c initial_state) ''query'' = None"
    using optional_parameter_inclusion[of "''query''" Truthy None ?c ?w initial_state] m2
    by simp
  have 3: "map_of (sent_arguments ?w ?c initial_state) ''limit'' = Some (PInt 5)"
    using optional_parameter_inclusion[of _ _ _ ?c ?w initial_state "''limit''" "PInt 20" "Some (PInt 5)"] m3
    by simp
  have 4: "map_of (sent_arguments ?w ?c2 initial_state) ''limit'' = Some (PInt 10)"
    using optional_parameter_inclusion[of _ _ _ ?c2 ?w initial_state "''limit''" "PInt 10" None] m4
    by simp
  show ?thesis
    using 1 2 3 4 by (intro conjI)
qed

text \<open>
  \<open>export_har()\<close> has no required parameter and still sends the key \<open>limit\<close>, with
  the default 100 of its signature.
\<close>

theorem export_har_sends_limit_counterexample:
  "only_required (ExportHar None) \<and>
   map fst (required_params (ExportHar None)) = [] \<and>
   sent_arguments (world_answering (RequestException ''refused'')) (ExportHar None) initial_state =
     [(''limit'', PInt 100)]"
  by (simp add: only_required_def sent_arguments_def export_har_def call_proxypin_tool_state
      passed_or_def)

text \<open>
  Claim C7. A call that supplies the required parameters only sends exactly the required
  keys, with the supplied values, followed by the keys of the parameters whose declared
  default is a value (\<open>limit\<close>, \<open>language\<close>, \<open>block_type\<close>, \<open>port\<close>), each with that
  default. No key is sent for a parameter whose default is \<open>None\<close>.
\<close>

theorem required_only_arguments:
  assumes "only_required c"
  shows "sent_arguments w c s =
           required_params c @ map (\<lambda>p. (fst p, fst (snd p))) (defaulted_params c)"
  using assms
  by (cases c)
    (simp_all add: only_required_def sent_arguments_def tool_defs call_proxypin_tool_state Let_def
      passed_or_def set_if_def search_requests_args_def)

theorem required_only_arguments_witness:
  "only_required (GetRequestDetails (PStr ''42'')) \<and>
   sent_arguments (world_answering (RequestException ''refused'')) (GetRequestDetails (PStr ''42''))
     initial_state = [(''request_id'', PStr ''42'')] \<and>
   only_required (FindSimilarRequests (PStr ''42'') None) \<and>
   sent_arguments (world_answering (RequestException ''refused'')) (FindSimilarRequests (PStr ''42'') None)
     initial_state = [(''request_id'', PStr ''42''), (''limit'', PInt 10)]"
proof -
  have o1: "only_required (GetRequestDetails (PStr ''42''))"
    by (simp add: only_required_def)
  have o2: "only_required (FindSimilarRequests (PStr ''42'') None)"
    by (simp add: only_required_def)
  show ?thesis
    using o1 o2
      required_only_arguments[OF o1, of "world_answering (RequestException ''refused'')" initial_state]
      required_only_arguments[OF o2, of "world_answering (RequestException ''refused'')" initial_state]
    by simp
qed

end
